theory Spec2Isabelle
  imports Complex_Main "HOL-Library.AList"
begin

text \<open>
  A shallow embedding of the job-portal backend's business rules: the profile-completion
  scorer (\<open>app/routers/profile.py\<close>), token verification, registration and login
  (\<open>app/utils/auth.py\<close>, \<open>app/routers/auth.py\<close>), job update and job search
  (\<open>app/routers/job.py\<close>), application creation (\<open>app/routers/applications.py\<close>,
  \<open>app/database/indexes.py\<close>) and the job-alert matcher
  (\<open>app/routers/job_alert.py\<close>).

  Python \<open>str\<close> values are modelled as \<open>string\<close>, one \<open>char\<close> per code point, for
  code points below 256. HTTP failures are values of \<open>http_error + 'a\<close>. Collections of
  the document store are lists of records in insertion order; \<open>find_one\<close> returns the
  first match.
\<close>

section \<open>Python floats: IEEE 754 binary64 on the rationals\<close>

text \<open>
  The scorer computes \<open>int((earned_points / total_points) * 100)\<close> in Python floats.
  A finite binary64 value is a rational; each operation returns the exact result rounded
  to the nearest value with a 53-bit significand, ties to even. \<open>halvings\<close> and
  \<open>doublings\<close> find the binary exponent of a positive rational, \<open>rne\<close> rounds to the
  nearest integer with ties to even, and \<open>round_double\<close> rounds to binary64. Overflow
  and subnormal numbers are left out: every value rounded here lies between
  \<open>1 / (2 * total_points)\<close> and 100.
\<close>

function halvings :: "rat \<Rightarrow> nat" where
  "halvings x = (if 2 \<le> x then Suc (halvings (x / 2)) else 0)"
  by pat_completeness auto
termination
proof (relation "measure (\<lambda>x. nat \<lfloor>x\<rfloor>)")
  show "wf (measure (\<lambda>x::rat. nat \<lfloor>x\<rfloor>))" by simp
next
  fix x :: rat
  assume h: "2 \<le> x"
  have "x / 2 \<le> x - 1" using h by simp
  then have "\<lfloor>x / 2\<rfloor> \<le> \<lfloor>x - 1\<rfloor>" by (rule floor_mono)
  moreover have "2 \<le> \<lfloor>x\<rfloor>" using h by (simp add: le_floor_iff)
  ultimately show "(x / 2, x) \<in> measure (\<lambda>x. nat \<lfloor>x\<rfloor>)" by simp
qed

function doublings :: "rat \<Rightarrow> nat" where
  "doublings x = (if 0 < x \<and> x < 1 then Suc (doublings (2 * x)) else 0)"
  by pat_completeness auto
termination
proof (relation "measure (\<lambda>x. nat \<lfloor>1 / x\<rfloor>)")
  show "wf (measure (\<lambda>x::rat. nat \<lfloor>1 / x\<rfloor>))" by simp
next
  fix x :: rat
  assume h: "0 < x \<and> x < 1"
  then have y: "1 < 1 / x" by simp
  have f1: "1 \<le> \<lfloor>1 / x\<rfloor>" using y by (simp add: le_floor_iff)
  have "1 / x < of_int \<lfloor>1 / x\<rfloor> + 1" by linarith
  then have "1 / (2 * x) < (of_int \<lfloor>1 / x\<rfloor> + 1) / 2" by (simp add: field_simps)
  also have "\<dots> \<le> of_int \<lfloor>1 / x\<rfloor>" using f1 by simp
  finally have "\<lfloor>1 / (2 * x)\<rfloor> < \<lfloor>1 / x\<rfloor>" by (simp add: floor_less_iff)
  then show "(2 * x, x) \<in> measure (\<lambda>x. nat \<lfloor>1 / x\<rfloor>)" using f1 by simp
qed

declare halvings.simps [simp del] doublings.simps [simp del]

definition bexp :: "rat \<Rightarrow> int" where
  "bexp x = int (halvings x) - int (doublings x)"

definition rne :: "rat \<Rightarrow> int" where
  "rne y = (let f = \<lfloor>y\<rfloor>; d = y - of_int f
            in if d < 1 / 2 then f else if 1 / 2 < d then f + 1
               else if even f then f else f + 1)"

definition round_double :: "rat \<Rightarrow> rat" where
  "round_double x =
     (if x = 0 then 0
      else let s = 2 powi (52 - bexp \<bar>x\<bar>)
           in sgn x * of_int (rne (\<bar>x\<bar> * s)) / s)"

definition fdiv :: "rat \<Rightarrow> rat \<Rightarrow> rat" where
  "fdiv a b = round_double (a / b)"

definition fmul :: "rat \<Rightarrow> rat \<Rightarrow> rat" where
  "fmul a b = round_double (a * b)"

definition py_int :: "rat \<Rightarrow> int" where
  \<comment> \<open>Python \<open>int(x)\<close> of a float: truncation towards zero.\<close>
  "py_int x = (if 0 \<le> x then \<lfloor>x\<rfloor> else \<lceil>x\<rceil>)"

section \<open>Profile completion scorer\<close>

text \<open>
  \<open>calculate_profile_completion(profile_data: dict)\<close> reads its fields with
  \<open>dict.get\<close>, so an absent key and a \<open>None\<close> value behave alike: a scalar field is a
  \<open>string option\<close>, and an absent or \<open>None\<close> section is the empty list. Fields the
  scorer never reads (dates, URLs, technologies) are left to the record extension.
\<close>

record experience_entry =
  exp_title :: "string option"
  exp_company :: "string option"

record education_entry =
  edu_school :: "string option"
  edu_degree :: "string option"

record project_entry =
  proj_title :: "string option"
  proj_description :: "string option"

record profile_data =
  fullName :: "string option"
  email :: "string option"
  phone :: "string option"
  address :: "string option"
  headline :: "string option"
  summary :: "string option"
  profilePicture :: "string option"
  experience :: "experience_entry list"
  education :: "education_entry list"
  skills :: "string list"
  projects :: "project_entry list"

definition py_isspace :: "char \<Rightarrow> bool" where
  \<comment> \<open>The code points below 256 that \<open>str.strip()\<close> removes.\<close>
  "py_isspace c = (of_char c \<in> {9, 10, 11, 12, 13, 28, 29, 30, 31, 32, 133, 160 :: nat})"

definition strip :: "string \<Rightarrow> string" where
  "strip s = rev (dropWhile py_isspace (rev (dropWhile py_isspace s)))"

definition truthy :: "string option \<Rightarrow> bool" where
  \<comment> \<open>Python truth value of \<open>d.get(key)\<close> for a string-valued key.\<close>
  "truthy v = (case v of None \<Rightarrow> False | Some s \<Rightarrow> s \<noteq> [])"

definition field_filled :: "string option \<Rightarrow> bool" where
  \<comment> \<open>\<open>profile_data.get(field) and str(profile_data.get(field)).strip()\<close>\<close>
  "field_filled v = (case v of None \<Rightarrow> False | Some s \<Rightarrow> s \<noteq> [] \<and> strip s \<noteq> [])"

definition tally :: "nat \<Rightarrow> bool list \<Rightarrow> rat \<times> int \<Rightarrow> rat \<times> int" where
  \<comment> \<open>One \<open>for\<close> loop of the scorer: every item adds \<open>w\<close> to \<open>total_points\<close>, and
      also to \<open>earned_points\<close> when its test holds.\<close>
  "tally w oks st =
     fold (\<lambda>ok (earned, total). (if ok then earned + of_nat w else earned, total + int w)) oks st"

definition count_ok :: "('a \<Rightarrow> bool) \<Rightarrow> 'a list \<Rightarrow> nat" where
  "count_ok P xs = length (filter P xs)"

definition experience_ok :: "experience_entry \<Rightarrow> bool" where
  "experience_ok x = (truthy (exp_title x) \<and> truthy (exp_company x))"

definition education_ok :: "education_entry \<Rightarrow> bool" where
  "education_ok x = (truthy (edu_school x) \<and> truthy (edu_degree x))"

definition project_ok :: "project_entry \<Rightarrow> bool" where
  "project_ok x = (truthy (proj_title x) \<and> truthy (proj_description x))"

definition required_fields :: "profile_data \<Rightarrow> string option list" where
  "required_fields p = [fullName p, email p]"

definition optional_fields :: "profile_data \<Rightarrow> string option list" where
  "optional_fields p = [phone p, address p, headline p, summary p, profilePicture p]"

definition calculate_points :: "profile_data \<Rightarrow> rat \<times> int" where
  \<comment> \<open>\<open>(earned_points, total_points)\<close> as they stand before the final division. Sums
      of halves are exact in binary64 below \<open>2 ^ 52\<close>, so they are kept exact here.\<close>
  "calculate_points p =
     (let st1 = tally 2 (map field_filled (required_fields p)) (0, 0);
          st2 = tally 1 (map field_filled (optional_fields p)) st1;
          st3 = (if experience p \<noteq> [] then tally 2 (map experience_ok (experience p)) st2
                 else st2);
          st4 = (if education p \<noteq> [] then tally 2 (map education_ok (education p)) st3
                 else st3);
          st5 = (if skills p \<noteq> []
                 then (fst st4 + min (of_nat (length (skills p)) * (1 / 2)) 10, snd st4 + 10)
                 else st4);
          st6 = (if projects p \<noteq> [] then tally 2 (map project_ok (projects p)) st5
                 else (fst st5, snd st5 + 4))
      in st6)"

definition earned_points :: "profile_data \<Rightarrow> rat" where
  "earned_points p = fst (calculate_points p)"

definition total_points :: "profile_data \<Rightarrow> int" where
  "total_points p = snd (calculate_points p)"

definition completion_percentage :: "profile_data \<Rightarrow> int" where
  \<comment> \<open>\<open>int((earned_points / total_points) * 100)\<close>, before the cap.\<close>
  "completion_percentage p =
     py_int (fmul (fdiv (earned_points p) (of_int (total_points p))) 100)"

definition calculate_profile_completion :: "profile_data \<Rightarrow> int" where
  "calculate_profile_completion p =
     (if total_points p = 0 then 0 else min (completion_percentage p) 100)"

definition spec_score :: "profile_data \<Rightarrow> int" where
  \<comment> \<open>The specification's formula: \<open>floor(100 * numerator / denominator)\<close>, clamped to
      \<open>[0, 100]\<close>, and 0 when the denominator is 0.\<close>
  "spec_score p =
     (if total_points p = 0 then 0
      else max 0 (min 100 \<lfloor>100 * earned_points p / of_int (total_points p)\<rfloor>))"

definition empty_profile :: profile_data where
  "empty_profile =
     \<lparr>fullName = None, email = None, phone = None, address = None, headline = None,
      summary = None, profilePicture = None, experience = [], education = [], skills = [],
      projects = []\<rparr>"

definition profile_25 :: profile_data where
  \<comment> \<open>All seven scalar fields filled, one valid experience entry, seven skills, no
      education and no projects: 14.5 points of 25.\<close>
  "profile_25 =
     \<lparr>fullName = Some ''Ann Lee'', email = Some ''ann@example.com'', phone = Some ''5550100'',
      address = Some ''1 Main St'', headline = Some ''Engineer'', summary = Some ''Builds things'',
      profilePicture = Some ''/uploads/a.png'',
      experience = [\<lparr>exp_title = Some ''Engineer'', exp_company = Some ''Acme''\<rparr>],
      education = [],
      skills = [''Go'', ''SQL'', ''C'', ''Rust'', ''Java'', ''Lua'', ''Perl''],
      projects = []\<rparr>"

definition profile_one_project :: profile_data where
  "profile_one_project =
     empty_profile\<lparr>projects := [\<lparr>proj_title = Some ''Site'', proj_description = Some ''A site''\<rparr>]\<rparr>"

datatype optional_field = Phone | Address | Headline | Summary | ProfilePicture

fun get_optional :: "optional_field \<Rightarrow> profile_data \<Rightarrow> string option" where
  "get_optional Phone p = phone p"
| "get_optional Address p = address p"
| "get_optional Headline p = headline p"
| "get_optional Summary p = summary p"
| "get_optional ProfilePicture p = profilePicture p"

fun set_optional :: "optional_field \<Rightarrow> string option \<Rightarrow> profile_data \<Rightarrow> profile_data" where
  "set_optional Phone v p = p\<lparr>phone := v\<rparr>"
| "set_optional Address v p = p\<lparr>address := v\<rparr>"
| "set_optional Headline v p = p\<lparr>headline := v\<rparr>"
| "set_optional Summary v p = p\<lparr>summary := v\<rparr>"
| "set_optional ProfilePicture v p = p\<lparr>profilePicture := v\<rparr>"

definition profile_name_only :: profile_data where
  "profile_name_only = empty_profile\<lparr>fullName := Some ''Ann Lee''\<rparr>"

section \<open>Document store\<close>

text \<open>
  A stored value is a \<open>jv\<close>; a document is its \<open>_id\<close> (the hexadecimal text of the
  ObjectId) and its other fields as an association list, read like a Python dict. The
  store is taken to be reachable: connection failures of the driver are not modelled.
\<close>

datatype jv = JNull | JBool bool | JInt int | JNum rat | JStr string | JTime int | JArr "jv list"

record document =
  doc_id :: string
  doc_fields :: "(string \<times> jv) list"

definition get :: "document \<Rightarrow> string \<Rightarrow> jv option" where
  \<comment> \<open>\<open>doc.get(key)\<close>, \<open>None\<close> for an absent key.\<close>
  "get d k = map_of (doc_fields d) k"

definition py_truthy :: "jv \<Rightarrow> bool" where
  "py_truthy v =
     (case v of JNull \<Rightarrow> False | JBool b \<Rightarrow> b | JInt n \<Rightarrow> n \<noteq> 0 | JNum x \<Rightarrow> x \<noteq> 0
      | JStr s \<Rightarrow> s \<noteq> [] | JTime t \<Rightarrow> True | JArr xs \<Rightarrow> xs \<noteq> [])"

definition field_eq :: "document \<Rightarrow> string \<Rightarrow> jv \<Rightarrow> bool" where
  \<comment> \<open>The store's equality match \<open>{k: v}\<close>: the field equals \<open>v\<close>, or is an array
      holding \<open>v\<close>; an absent field matches only \<open>null\<close>.\<close>
  "field_eq d k v =
     (if k = ''_id'' then v = JStr (doc_id d)
      else case get d k of
             None \<Rightarrow> v = JNull
           | Some w \<Rightarrow> w = v \<or> (case w of JArr xs \<Rightarrow> List.member xs v | _ \<Rightarrow> False))"

definition matches_filter :: "(string \<times> jv) list \<Rightarrow> document \<Rightarrow> bool" where
  "matches_filter flt d = list_all (\<lambda>(k, v). field_eq d k v) flt"

definition find_one :: "(string \<times> jv) list \<Rightarrow> document list \<Rightarrow> document option" where
  "find_one flt coll = find (matches_filter flt) coll"

datatype index_spec = Index "string list" bool

datatype db_error = DuplicateKeyError | OtherError

definition index_key :: "document \<Rightarrow> string list \<Rightarrow> jv list" where
  \<comment> \<open>The key of a document in an index: an absent field is indexed as \<open>null\<close>.\<close>
  "index_key d ks = map (\<lambda>k. case get d k of None \<Rightarrow> JNull | Some v \<Rightarrow> v) ks"

definition duplicate_key :: "index_spec list \<Rightarrow> document list \<Rightarrow> document \<Rightarrow> bool" where
  \<comment> \<open>Whether inserting the document breaks the \<open>_id\<close> index or one of the indexes
      created with \<open>unique=True\<close>.\<close>
  "duplicate_key idxs coll new =
     (list_ex (\<lambda>d. doc_id d = doc_id new) coll \<or>
      list_ex (\<lambda>i. case i of Index ks uniq \<Rightarrow>
                 uniq \<and> list_ex (\<lambda>d. index_key d ks = index_key new ks) coll) idxs)"

definition insert_one ::
  "index_spec list \<Rightarrow> document list \<Rightarrow> string \<Rightarrow> (string \<times> jv) list \<Rightarrow> db_error + document list"
where
  \<comment> \<open>\<open>collection.insert_one(dict)\<close>; \<open>new_id\<close> is the ObjectId the driver generates.\<close>
  "insert_one idxs coll new_id dict =
     (let d = \<lparr>doc_id = new_id, doc_fields = dict\<rparr>
      in if duplicate_key idxs coll d then Inl DuplicateKeyError else Inr (coll @ [d]))"

definition dict_update :: "(string \<times> jv) list \<Rightarrow> (string \<times> jv) list \<Rightarrow> (string \<times> jv) list" where
  \<comment> \<open>\<open>{**base, **upd}\<close>, and the effect of \<open>$set\<close> on a document's fields.\<close>
  "dict_update base upd = fold (\<lambda>(k, v). AList.update k v) upd base"

definition set_fields :: "(string \<times> jv) list \<Rightarrow> document \<Rightarrow> document" where
  \<comment> \<open>The effect of \<open>{"$set": upd}\<close> on one document.\<close>
  "set_fields upd d = d\<lparr>doc_fields := dict_update (doc_fields d) upd\<rparr>"

fun update_first :: "('a \<Rightarrow> bool) \<Rightarrow> ('a \<Rightarrow> 'a) \<Rightarrow> 'a list \<Rightarrow> 'a list" where
  "update_first P f [] = []"
| "update_first P f (x # xs) = (if P x then f x # xs else x # update_first P f xs)"

definition update_one ::
  "(string \<times> jv) list \<Rightarrow> (string \<times> jv) list \<Rightarrow> document list \<Rightarrow> document list \<times> nat"
where
  \<comment> \<open>\<open>collection.update_one(flt, {"$set": upd})\<close>: the new collection and
      \<open>modified_count\<close>, which is 0 when no document matches or the match is left as it was.\<close>
  "update_one flt upd coll =
     (case find_one flt coll of
        None \<Rightarrow> (coll, 0)
      | Some d \<Rightarrow>
          (update_first (matches_filter flt) (\<lambda>_. set_fields upd d) coll,
           if set_fields upd d = d then 0 else 1))"

text \<open>The indexes that \<open>create_indexes\<close> declares on the collections modelled here.\<close>

definition users_indexes :: "index_spec list" where
  "users_indexes =
     [Index [''email''] True, Index [''role''] False, Index [''is_active''] False,
      Index [''created_at''] False]"


text \<open>
  \<open>ObjectId(s)\<close> accepts a text of 24 characters that \<open>bytes.fromhex\<close> can read:
  pairs of hexadecimal digits in either case, with ASCII blanks allowed between pairs. Its
  value is written here as \<open>str\<close> prints it, in lower-case digits, which is also the
  form of every \<open>_id\<close> that the store assigns.
\<close>

definition is_hex :: "char \<Rightarrow> bool" where
  "is_hex c =
     ((of_char CHR ''0'' \<le> (of_char c :: nat) \<and> (of_char c :: nat) \<le> of_char CHR ''9'')
      \<or> (of_char CHR ''a'' \<le> (of_char c :: nat) \<and> (of_char c :: nat) \<le> of_char CHR ''f'')
      \<or> (of_char CHR ''A'' \<le> (of_char c :: nat) \<and> (of_char c :: nat) \<le> of_char CHR ''F''))"

definition hex_lower :: "char \<Rightarrow> char" where
  "hex_lower c =
     (if c = CHR ''A'' then CHR ''a'' else if c = CHR ''B'' then CHR ''b''
      else if c = CHR ''C'' then CHR ''c'' else if c = CHR ''D'' then CHR ''d''
      else if c = CHR ''E'' then CHR ''e'' else if c = CHR ''F'' then CHR ''f'' else c)"

definition is_ascii_space :: "char \<Rightarrow> bool" where
  "is_ascii_space c = List.member [9, 10, 11, 12, 13, 32 :: nat] (of_char c)"

fun fromhex :: "string \<Rightarrow> string option" where
  \<comment> \<open>\<open>bytes.fromhex(s)\<close>, the bytes written as lower-case digit pairs.\<close>
  "fromhex [] = Some []"
| "fromhex [c] = (if is_ascii_space c then Some [] else None)"
| "fromhex (c # d # ds) =
     (if is_ascii_space c then fromhex (d # ds)
      else if is_hex c \<and> is_hex d
      then map_option (\<lambda>r. hex_lower c # hex_lower d # r) (fromhex ds)
      else None)"

definition ObjectId :: "string \<Rightarrow> string option" where
  \<comment> \<open>\<open>None\<close> where \<open>ObjectId(s)\<close> raises \<open>InvalidId\<close>.\<close>
  "ObjectId s = (if length s = 24 then fromhex s else None)"


datatype http_error = HTTPException nat string

datatype py_exception = Exception string

section \<open>Tokens and token verification\<close>

text \<open>
  A JWT is modelled symbolically: the key it was signed with and its claims. Decoding with
  another key, or after the \<open>exp\<close> claim, fails, as \<open>jose.jwt.decode\<close> does. The
  environment holds the configuration read at import time and the bcrypt functions.
\<close>

record claims =
  claim_sub :: "string option"
  claim_role :: "jv option"
  claim_exp :: "int option"

datatype token = Signed string claims | Garbage

record env =
  SECRET_KEY :: string
  ACCESS_TOKEN_EXPIRE_MINUTES :: int
  hashpw :: "string \<Rightarrow> string"
  checkpw :: "string \<Rightarrow> string \<Rightarrow> bool"

record identity =
  ident_id :: string
  ident_email :: jv
  ident_role :: jv

definition jwt_decode :: "string \<Rightarrow> int \<Rightarrow> token \<Rightarrow> claims option" where
  "jwt_decode key now tok =
     (case tok of
        Garbage \<Rightarrow> None
      | Signed k c \<Rightarrow>
          if k \<noteq> key then None
          else (case claim_exp c of
                  Some e \<Rightarrow> if e < now then None else Some c
                | None \<Rightarrow> Some c))"

definition create_access_token :: "env \<Rightarrow> int \<Rightarrow> string \<Rightarrow> jv \<Rightarrow> token" where
  \<comment> \<open>\<open>create_access_token(data={"sub": email}, expires_delta, user_role)\<close> at time
      \<open>now\<close> (seconds): the role claim is added only when \<open>user_role\<close> is truthy.\<close>
  "create_access_token ev now mail user_role =
     Signed (SECRET_KEY ev)
       \<lparr>claim_sub = Some mail,
        claim_role = (if py_truthy user_role then Some user_role else None),
        claim_exp = Some (now + 60 * ACCESS_TOKEN_EXPIRE_MINUTES ev)\<rparr>"

definition get_current_user ::
  "env \<Rightarrow> int \<Rightarrow> document list \<Rightarrow> token \<Rightarrow> py_exception + identity"
where
  "get_current_user ev now users tok =
     (case jwt_decode (SECRET_KEY ev) now tok of
        None \<Rightarrow> Inl (Exception ''Could not validate credentials - JWT error'')
      | Some payload \<Rightarrow>
          (case claim_sub payload of
             None \<Rightarrow> Inl (Exception ''Could not validate credentials'')
           | Some mail \<Rightarrow>
               let role = (case claim_role payload of None \<Rightarrow> JStr ''job_seeker'' | Some r \<Rightarrow> r);
                   expiry_timestamp = (case claim_exp payload of None \<Rightarrow> 0 | Some e \<Rightarrow> e)
               in if expiry_timestamp < now
                  then Inl (Exception ''Could not validate credentials'')
                  else (case find_one [(''email'', JStr mail)] users of
                          None \<Rightarrow> Inl (Exception ''Could not validate credentials'')
                        | Some user \<Rightarrow>
                            (case get user ''email'' of
                               None \<Rightarrow> Inl (Exception ''Could not validate credentials'')
                             | Some e \<Rightarrow>
                                 Inr \<lparr>ident_id = doc_id user, ident_email = e,
                                      ident_role = role\<rparr>))))"

definition get_current_user_role :: "document list \<Rightarrow> string \<Rightarrow> py_exception + jv" where
  \<comment> \<open>The role of the live user record, used by \<open>require_admin\<close> only.\<close>
  "get_current_user_role users user_id =
     (case ObjectId user_id of
        None \<Rightarrow> Inl (Exception ''Could not get user role'')
      | Some oid \<Rightarrow>
          (case find_one [(''_id'', JStr oid)] users of
             None \<Rightarrow> Inl (Exception ''Could not get user role'')
           | Some user \<Rightarrow>
               Inr (case get user ''role'' of None \<Rightarrow> JStr ''job_seeker'' | Some r \<Rightarrow> r)))"

section \<open>Registration and login\<close>

definition utf8_len :: "string \<Rightarrow> nat" where
  \<comment> \<open>\<open>len(s.encode('utf-8'))\<close> for code points below 256.\<close>
  "utf8_len s = sum_list (map (\<lambda>c. if (of_char c :: nat) < 128 then 1 else 2) s)"

fun utf8_take :: "nat \<Rightarrow> string \<Rightarrow> string" where
  \<comment> \<open>The longest prefix of whole characters that fits in \<open>n\<close> bytes.\<close>
  "utf8_take n [] = []"
| "utf8_take n (c # cs) =
     (let w = (if (of_char c :: nat) < 128 then 1 else 2)
      in if w \<le> n then c # utf8_take (n - w) cs else [])"

definition truncate72 :: "string \<Rightarrow> string" where
  \<comment> \<open>\<open>password.encode('utf-8')[:72].decode('utf-8', errors='ignore')\<close> when the
      encoding is longer than 72 bytes, the password itself otherwise.\<close>
  "truncate72 pw = (if utf8_len pw > 72 then utf8_take 72 pw else pw)"

definition verify_password :: "env \<Rightarrow> string \<Rightarrow> jv \<Rightarrow> bool" where
  "verify_password ev plain hashed =
     (case hashed of JStr h \<Rightarrow> checkpw ev (truncate72 plain) h | _ \<Rightarrow> False)"

definition get_password_hash :: "env \<Rightarrow> string \<Rightarrow> string" where
  "get_password_hash ev pw = hashpw ev (truncate72 pw)"

text \<open>
  Regular expressions, matched by derivatives. \<open>re.match\<close> of a pattern \<open>^R$\<close> succeeds
  when \<open>R\<close> matches the whole string, and also when it matches all of it but one final
  newline: \<open>$\<close> matches at the end and just before a newline at the end.
\<close>

datatype rx = Nothing | Eps | Cls "char \<Rightarrow> bool" | Cat rx rx | Alt rx rx | Star rx

fun nullable :: "rx \<Rightarrow> bool" where
  "nullable Nothing = False"
| "nullable Eps = True"
| "nullable (Cls P) = False"
| "nullable (Cat r s) = (nullable r \<and> nullable s)"
| "nullable (Alt r s) = (nullable r \<or> nullable s)"
| "nullable (Star r) = True"

fun deriv :: "char \<Rightarrow> rx \<Rightarrow> rx" where
  "deriv c Nothing = Nothing"
| "deriv c Eps = Nothing"
| "deriv c (Cls P) = (if P c then Eps else Nothing)"
| "deriv c (Cat r s) =
     (if nullable r then Alt (Cat (deriv c r) s) (deriv c s) else Cat (deriv c r) s)"
| "deriv c (Alt r s) = Alt (deriv c r) (deriv c s)"
| "deriv c (Star r) = Cat (deriv c r) (Star r)"

definition rx_fullmatch :: "rx \<Rightarrow> string \<Rightarrow> bool" where
  "rx_fullmatch r s = nullable (fold deriv s r)"

definition re_match_to_dollar :: "rx \<Rightarrow> string \<Rightarrow> bool" where
  "re_match_to_dollar r s =
     (rx_fullmatch r s \<or> (s \<noteq> [] \<and> last s = CHR 0x0A \<and> rx_fullmatch r (butlast s)))"

fun rx_repeat :: "nat \<Rightarrow> rx \<Rightarrow> rx" where
  "rx_repeat 0 r = Eps"
| "rx_repeat (Suc n) r = Cat r (rx_repeat n r)"

definition rx_plus :: "rx \<Rightarrow> rx" where
  "rx_plus r = Cat r (Star r)"

definition is_upper :: "char \<Rightarrow> bool" where
  \<comment> \<open>\<open>[A-Z]\<close>\<close>
  "is_upper c = (of_char CHR ''A'' \<le> (of_char c :: nat) \<and> (of_char c :: nat) \<le> of_char CHR ''Z'')"

definition is_lower :: "char \<Rightarrow> bool" where
  \<comment> \<open>\<open>[a-z]\<close>\<close>
  "is_lower c = (of_char CHR ''a'' \<le> (of_char c :: nat) \<and> (of_char c :: nat) \<le> of_char CHR ''z'')"

definition is_digit :: "char \<Rightarrow> bool" where
  \<comment> \<open>\<open>[0-9]\<close>, and \<open>\d\<close> on code points below 256.\<close>
  "is_digit c = (of_char CHR ''0'' \<le> (of_char c :: nat) \<and> (of_char c :: nat) \<le> of_char CHR ''9'')"

definition is_special :: "char \<Rightarrow> bool" where
  \<comment> \<open>The class \<open>[!@#$%^&*(),.?":{}|<>]\<close>.\<close>
  "is_special c = List.member (CHR 0x22 # ''!@#$%^&*(),.?:{}|<>'') c"

definition email_rx :: rx where
  \<comment> \<open>\<open>[a-zA-Z0-9._%+-]+@[a-zA-Z0-9.-]+\.[a-zA-Z]{2,}\<close>\<close>
  "email_rx =
     Cat (rx_plus (Cls (\<lambda>c. is_lower c \<or> is_upper c \<or> is_digit c \<or> List.member ''._%+-'' c)))
    (Cat (Cls (\<lambda>c. c = CHR ''@''))
    (Cat (rx_plus (Cls (\<lambda>c. is_lower c \<or> is_upper c \<or> is_digit c \<or> List.member ''.-'' c)))
    (Cat (Cls (\<lambda>c. c = CHR ''.''))
    (Cat (rx_repeat 2 (Cls (\<lambda>c. is_lower c \<or> is_upper c)))
         (Star (Cls (\<lambda>c. is_lower c \<or> is_upper c)))))))"

definition validate_email :: "string \<Rightarrow> bool" where
  "validate_email e = re_match_to_dollar email_rx e"

definition validate_password :: "string \<Rightarrow> bool" where
  "validate_password password =
     (if length password < 8 then False
      else if \<not> list_ex is_upper password then False
      else if \<not> list_ex is_digit password then False
      else if \<not> list_ex is_special password then False
      else True)"

definition validate_mobile :: "string \<Rightarrow> bool" where
  \<comment> \<open>\<open>re.match(r'^\d{10}$', mobile)\<close>\<close>
  "validate_mobile mobile = re_match_to_dollar (rx_repeat 10 (Cls is_digit)) mobile"

datatype UserRole = JOB_SEEKER | EMPLOYER | ADMIN

fun role_value :: "UserRole \<Rightarrow> string" where
  "role_value JOB_SEEKER = ''job_seeker''"
| "role_value EMPLOYER = ''employer''"
| "role_value ADMIN = ''admin''"

record UserCreate =
  uc_email :: string
  uc_full_name :: string
  uc_role :: UserRole
  uc_password :: string
  uc_mobile :: string
  uc_resume_url :: string
  uc_is_active :: bool

definition user_model_dump :: "UserCreate \<Rightarrow> (string \<times> jv) list" where
  "user_model_dump user =
     [(''email'', JStr (uc_email user)), (''full_name'', JStr (uc_full_name user)),
      (''role'', JStr (role_value (uc_role user))), (''password'', JStr (uc_password user)),
      (''mobile'', JStr (uc_mobile user)), (''resume_url'', JStr (uc_resume_url user)),
      (''is_active'', JBool (uc_is_active user))]"

definition register ::
  "env \<Rightarrow> int \<Rightarrow> string \<Rightarrow> document list \<Rightarrow> UserCreate \<Rightarrow>
     http_error + (document list \<times> token \<times> (string \<times> jv) list)"
where
  \<comment> \<open>The handler of \<open>POST /api/auth/register\<close> on a parsed \<open>UserCreate\<close>: the new
      users collection, the token and the \<open>user\<close> part of the response. The detail of
      the role error is written without its quotation marks.\<close>
  "register ev now new_id users user =
     (if \<not> validate_email (uc_email user)
      then Inl (HTTPException 400 ''Invalid email format'')
      else if utf8_len (uc_password user) > 72
      then Inl (HTTPException 400
             ''Password cannot be longer than 72 characters due to security limitations'')
      else if \<not> validate_password (uc_password user)
      then Inl (HTTPException 400
             ''Password must be at least 8 characters with 1 uppercase letter, 1 number, and 1 special character'')
      else if \<not> validate_mobile (uc_mobile user)
      then Inl (HTTPException 400 ''Mobile number must be 10 digits'')
      else if \<not> List.member [JOB_SEEKER, EMPLOYER, ADMIN] (uc_role user)
      then Inl (HTTPException 400 ''Role must be job_seeker, employer, or admin'')
      else
        let hashed_password = get_password_hash ev (uc_password user);
            user_dict = dict_update (user_model_dump user)
              [(''hashed_password'', JStr hashed_password), (''is_verified'', JBool False),
               (''is_active'', JBool True), (''created_at'', JTime now)]
        in case insert_one users_indexes users new_id user_dict of
             Inl DuplicateKeyError \<Rightarrow> Inl (HTTPException 400 ''Email already exists'')
           | Inl OtherError \<Rightarrow>
               Inl (HTTPException 503 ''Service temporarily unavailable. Registration failed.'')
           | Inr users' \<Rightarrow>
               Inr (users',
                    create_access_token ev now (uc_email user) (JStr (role_value (uc_role user))),
                    [(''id'', JStr new_id), (''email'', JStr (uc_email user)),
                     (''name'', JStr (uc_full_name user)),
                     (''role'', JStr (role_value (uc_role user)))]))"

definition login_credentials ::
  "string \<Rightarrow> string \<Rightarrow> (string \<times> string) list option \<Rightarrow> string \<times> string"
where
  \<comment> \<open>The email and password that \<open>login\<close> goes on with: the query parameters, or the
      JSON body's when a parameter is empty; the password cut to 72 characters.\<close>
  "login_credentials mail password body =
     (let (mail1, password1) =
            (if mail = [] \<or> password = []
             then (case body of
                     None \<Rightarrow> (mail, password)
                   | Some b \<Rightarrow>
                       (case map_of b ''email'' of None \<Rightarrow> mail | Some e \<Rightarrow> e,
                        case map_of b ''password'' of None \<Rightarrow> password | Some p \<Rightarrow> p))
             else (mail, password))
      in (mail1, if length password1 > 72 then take 72 password1 else password1))"

definition login ::
  "env \<Rightarrow> int \<Rightarrow> document list \<Rightarrow> (string \<times> string) list option \<Rightarrow> string \<Rightarrow> string \<Rightarrow>
     http_error + (token \<times> (string \<times> jv) list)"
where
  \<comment> \<open>\<open>POST /api/auth/login\<close>. The values of the JSON body are taken to be strings. A
      record without \<open>full_name\<close> ends in the framework's 500; a stored email that is
      not a string is treated like a missing one.\<close>
  "login ev now users body mail password =
     (let (mail', password') = login_credentials mail password body
      in if utf8_len password' > 72
         then Inl (HTTPException 400
                ''Password cannot be longer than 72 characters due to security limitations'')
         else if mail' = [] \<or> password' = []
         then Inl (HTTPException 400 ''Email and password are required'')
         else (case find_one [(''email'', JStr mail')] users of
                 None \<Rightarrow> Inl (HTTPException 401 ''Invalid credentials'')
               | Some user \<Rightarrow>
                   (case get user ''hashed_password'' of
                      None \<Rightarrow>
                        Inl (HTTPException 503
                          ''Service temporarily unavailable. Please try again later.'')
                    | Some hashed \<Rightarrow>
                        if \<not> verify_password ev password' hashed
                        then Inl (HTTPException 401 ''Invalid credentials'')
                        else if \<not> py_truthy (case get user ''is_active'' of
                                                None \<Rightarrow> JBool True | Some a \<Rightarrow> a)
                        then Inl (HTTPException 401 ''Account is deactivated'')
                        else
                          let user_role = (case get user ''role'' of
                                             None \<Rightarrow> JStr ''job_seeker'' | Some r \<Rightarrow> r)
                          in (case (get user ''email'', get user ''full_name'') of
                                (Some (JStr e), Some n) \<Rightarrow>
                                  Inr (create_access_token ev now e user_role,
                                       [(''id'', JStr (doc_id user)), (''email'', JStr e),
                                        (''name'', n), (''role'', user_role)])
                              | _ \<Rightarrow> Inl (HTTPException 500 ''Internal Server Error'')))))"

definition update_user_status :: "string \<Rightarrow> bool \<Rightarrow> document list \<Rightarrow> document list" where
  \<comment> \<open>The store update of the admin endpoint \<open>PUT /users/{user_id}/status\<close>, for
      the \<open>_id\<close> that \<open>ObjectId(user_id)\<close> denotes.\<close>
  "update_user_status oid is_active users =
     fst (update_one [(''_id'', JStr oid)] [(''is_active'', JBool is_active)] users)"

definition set_active :: "bool \<Rightarrow> document \<Rightarrow> document" where
  \<comment> \<open>The effect of \<open>{"$set": {"is_active": b}}\<close> on one document.\<close>
  "set_active b d = d\<lparr>doc_fields := AList.update ''is_active'' (JBool b) (doc_fields d)\<rparr>"

definition set_stored_role :: "(document \<Rightarrow> jv) \<Rightarrow> document \<Rightarrow> document" where
  \<comment> \<open>A user record with its stored role replaced.\<close>
  "set_stored_role r u = u\<lparr>doc_fields := AList.update ''role'' (r u) (doc_fields u)\<rparr>"

text \<open>Sample data: a server configuration and one registered user.\<close>

definition env0 :: env where
  "env0 = \<lparr>SECRET_KEY = ''s3cret'', ACCESS_TOKEN_EXPIRE_MINUTES = 30,
            hashpw = (\<lambda>p. ''$2b$'' @ p), checkpw = (\<lambda>p h. h = ''$2b$'' @ p)\<rparr>"

definition ann :: document where
  "ann = \<lparr>doc_id = ''65a000000000000000000001'',
          doc_fields = [(''email'', JStr ''ann@example.com''), (''full_name'', JStr ''Ann Lee''),
                        (''role'', JStr ''job_seeker''), (''hashed_password'', JStr ''$2b$Passw0rd!''),
                        (''is_verified'', JBool False), (''is_active'', JBool True),
                        (''created_at'', JTime 1000)]\<rparr>"

definition employer_claims :: claims where
  "employer_claims =
     \<lparr>claim_sub = Some ''ann@example.com'', claim_role = Some (JStr ''employer''),
      claim_exp = Some 5000\<rparr>"

definition ann_deactivated :: document where
  "ann_deactivated = set_active False ann"

definition bob :: UserCreate where
  \<comment> \<open>A registration whose mobile number is ten digits followed by a newline.\<close>
  "bob = \<lparr>uc_email = ''bob@example.com'', uc_full_name = ''Bob Ray'', uc_role = EMPLOYER,
          uc_password = ''Passw0rd!'', uc_mobile = ''1234567890'' @ [CHR 0x0A],
          uc_resume_url = [], uc_is_active = True\<rparr>"

section \<open>Jobs: update\<close>

text \<open>
  Exceptions raised inside a handler's \<open>try\<close> block. \<open>HTTPException\<close> is a subclass of
  \<open>Exception\<close>, so an \<open>except Exception\<close> clause catches it like any other.
\<close>

datatype raised = HTTP http_error | InvalidId | KeyError string | ValidationError

text \<open>
  The models of \<open>app/models/job.py\<close>. A field is declared with the kind of its value
  and whether it is \<open>Optional\<close> (accepts \<open>None\<close>); no field has a default, so every
  field is required. \<open>JobCreate\<close> and \<open>JobUpdate\<close> are \<open>JobBase\<close> unchanged;
  \<open>Job\<close> adds five fields.
\<close>

datatype kind = K_str | K_int | K_float | K_bool | K_datetime | K_str_list

definition is_str :: "jv \<Rightarrow> bool" where
  "is_str v = (case v of JStr s \<Rightarrow> True | _ \<Rightarrow> False)"

fun is_kind :: "kind \<Rightarrow> jv \<Rightarrow> bool" where
  \<comment> \<open>The value already has the type of the field.\<close>
  "is_kind K_str v = is_str v"
| "is_kind K_int v = (case v of JInt n \<Rightarrow> True | _ \<Rightarrow> False)"
| "is_kind K_float v = (case v of JNum x \<Rightarrow> True | _ \<Rightarrow> False)"
| "is_kind K_bool v = (case v of JBool b \<Rightarrow> True | _ \<Rightarrow> False)"
| "is_kind K_datetime v = (case v of JTime t \<Rightarrow> True | _ \<Rightarrow> False)"
| "is_kind K_str_list v = (case v of JArr xs \<Rightarrow> list_all is_str xs | _ \<Rightarrow> False)"

definition JobBase_fields :: "(string \<times> kind \<times> bool) list" where
  "JobBase_fields =
     [(''title'', K_str, False), (''description'', K_str, False), (''company'', K_str, False),
      (''salary_min'', K_int, True), (''salary_max'', K_int, True), (''location'', K_str, False),
      (''skills'', K_str_list, False), (''experience_required'', K_str, True),
      (''work_mode'', K_str, True), (''company_logo_url'', K_str, True),
      (''company_rating'', K_float, True), (''reviews_count'', K_int, True)]"

definition Job_fields :: "(string \<times> kind \<times> bool) list" where
  "Job_fields =
     JobBase_fields @
     [(''id'', K_str, False), (''posted_date'', K_datetime, False), (''is_active'', K_bool, False),
      (''application_count'', K_int, False), (''view_count'', K_int, False)]"

datatype input_mode = Json | Python

definition validate_field ::
  "(kind \<Rightarrow> jv \<Rightarrow> jv option) \<Rightarrow> (string \<times> jv) list \<Rightarrow> string \<times> kind \<times> bool \<Rightarrow>
     (string \<times> jv) option"
where
  \<comment> \<open>One field of a model validated against the input dict: a missing field is an
      error, \<open>None\<close> is kept by an \<open>Optional\<close> field, a value of the field's type is
      kept as it is, and any other value is kept only if the library converts it to a
      value of the field's type. The library's table of such conversions is the
      parameter \<open>coerce\<close>.\<close>
  "validate_field coerce d f =
     (case f of (name, k, optional) \<Rightarrow>
        (case map_of d name of
           None \<Rightarrow> None
         | Some v \<Rightarrow>
             if optional \<and> v = JNull then Some (name, JNull)
             else if is_kind k v then Some (name, v)
             else (case coerce k v of
                     None \<Rightarrow> None
                   | Some w \<Rightarrow> if is_kind k w then Some (name, w) else None)))"

definition model_validate ::
  "(kind \<Rightarrow> jv \<Rightarrow> jv option) \<Rightarrow> (string \<times> kind \<times> bool) list \<Rightarrow> (string \<times> jv) list \<Rightarrow>
     (string \<times> jv) list option"
where
  \<comment> \<open>\<open>Model(**d)\<close> followed by \<open>model_dump()\<close>: the validated fields of the model,
      input keys that are no field of the model dropped; \<open>None\<close> for a
      \<open>ValidationError\<close>.\<close>
  "model_validate coerce spec d = those (map (validate_field coerce d) spec)"

definition job_response :: "document \<Rightarrow> (string \<times> jv) list" where
  \<comment> \<open>The dict handed to \<open>Job(**updated_job)\<close>: \<open>id\<close> added, \<open>is_active\<close> made a
      bool.\<close>
  "job_response d =
     (let with_id = AList.update ''id'' (JStr (doc_id d)) (doc_fields d)
      in case map_of with_id ''is_active'' of
           None \<Rightarrow> with_id
         | Some a \<Rightarrow> AList.update ''is_active'' (JBool (py_truthy a)) with_id)"

definition update_job_try ::
  "(input_mode \<Rightarrow> kind \<Rightarrow> jv \<Rightarrow> jv option) \<Rightarrow> int \<Rightarrow> document list \<Rightarrow> string \<Rightarrow>
     (string \<times> jv) list \<Rightarrow> identity \<Rightarrow> (raised + (string \<times> jv) list) \<times> document list"
where
  \<comment> \<open>The \<open>try\<close> block of \<open>update_job\<close>. \<open>job_update\<close> is
      \<open>job_update.model_dump(exclude_unset=True)\<close> of the validated request body: every
      field of \<open>JobUpdate\<close> is required, so every field is set.\<close>
  "update_job_try coerce now jobs job_id job_update current_user =
     (case ObjectId job_id of
        None \<Rightarrow> (Inl InvalidId, jobs)
      | Some oid \<Rightarrow>
          (case find_one [(''_id'', JStr oid)] jobs of
             None \<Rightarrow> (Inl (HTTP (HTTPException 404 ''Job not found'')), jobs)
           | Some job \<Rightarrow>
               (case get job ''created_by'' of
                  None \<Rightarrow> (Inl (KeyError ''created_by''), jobs)
                | Some owner \<Rightarrow>
                    if owner \<noteq> JStr (ident_id current_user) \<and>
                       ident_role current_user \<noteq> JStr ''admin''
                    then (Inl (HTTP (HTTPException 403 ''Not authorized to update this job'')), jobs)
                    else
                      let update_data = dict_update job_update [(''updated_at'', JTime now)];
                          (jobs', modified_count) = update_one [(''_id'', JStr oid)] update_data jobs
                      in if modified_count = 0
                         then (Inl (HTTP (HTTPException 400 ''No changes made to job'')), jobs')
                         else (case find_one [(''_id'', JStr oid)] jobs' of
                                 None \<Rightarrow> (Inl (HTTP (HTTPException 404 ''Job not found'')), jobs')
                               | Some updated_job \<Rightarrow>
                                   (case model_validate (coerce Python) Job_fields
                                           (job_response updated_job) of
                                      None \<Rightarrow> (Inl ValidationError, jobs')
                                    | Some response \<Rightarrow> (Inr response, jobs'))))))"

definition update_job ::
  "env \<Rightarrow> (input_mode \<Rightarrow> kind \<Rightarrow> jv \<Rightarrow> jv option) \<Rightarrow> int \<Rightarrow> document list \<Rightarrow> document list \<Rightarrow>
     string \<Rightarrow> (string \<times> jv) list \<Rightarrow> token \<Rightarrow> (http_error + (string \<times> jv) list) \<times> document list"
where
  \<comment> \<open>The body of \<open>update_job\<close>: the response and the jobs collection afterwards. A
      failure of \<open>get_current_user\<close>, raised outside the \<open>try\<close>, is the framework's 500;
      whatever the \<open>try\<close> block raises becomes 400 \<open>Invalid job ID\<close>.\<close>
  "update_job ev coerce now users jobs job_id job_update tok =
     (case get_current_user ev now users tok of
        Inl _ \<Rightarrow> (Inl (HTTPException 500 ''Internal Server Error''), jobs)
      | Inr current_user \<Rightarrow>
          (case update_job_try coerce now jobs job_id job_update current_user of
             (Inl _, jobs') \<Rightarrow> (Inl (HTTPException 400 ''Invalid job ID''), jobs')
           | (Inr job, jobs') \<Rightarrow> (Inr job, jobs')))"

definition put_job ::
  "env \<Rightarrow> (input_mode \<Rightarrow> kind \<Rightarrow> jv \<Rightarrow> jv option) \<Rightarrow> int \<Rightarrow> document list \<Rightarrow> document list \<Rightarrow>
     string \<Rightarrow> (string \<times> jv) list \<Rightarrow> token \<Rightarrow> (http_error + (string \<times> jv) list) \<times> document list"
where
  \<comment> \<open>\<open>PUT /api/jobs/{job_id}\<close> with a JSON object as body: the parameter
      \<open>job_update: JobUpdate\<close> is validated first, and a body that the model refuses is
      answered 422 without calling \<open>update_job\<close> (the list of errors in the detail is
      not reproduced).\<close>
  "put_job ev coerce now users jobs job_id body tok =
     (case model_validate (coerce Json) JobBase_fields body of
        None \<Rightarrow> (Inl (HTTPException 422 ''Unprocessable Entity''), jobs)
      | Some job_update \<Rightarrow> update_job ev coerce now users jobs job_id job_update tok)"


text \<open>Sample data: two employers, a job that Carl owns, and tokens.\<close>

definition carl :: document where
  "carl = \<lparr>doc_id = ''65a000000000000000000003'',
           doc_fields = [(''email'', JStr ''carl@example.com''), (''full_name'', JStr ''Carl Roe''),
                         (''role'', JStr ''employer''), (''hashed_password'', JStr ''$2b$Secr3t!x''),
                         (''is_verified'', JBool False), (''is_active'', JBool True),
                         (''created_at'', JTime 1000)]\<rparr>"

definition dora :: document where
  "dora = \<lparr>doc_id = ''65a000000000000000000004'',
           doc_fields = [(''email'', JStr ''dora@example.com''), (''full_name'', JStr ''Dora Poe''),
                         (''role'', JStr ''employer''), (''hashed_password'', JStr ''$2b$Secr3t!y''),
                         (''is_verified'', JBool False), (''is_active'', JBool True),
                         (''created_at'', JTime 1000)]\<rparr>"


definition carl_claims :: claims where
  "carl_claims =
     \<lparr>claim_sub = Some ''carl@example.com'', claim_role = Some (JStr ''employer''),
      claim_exp = Some 5000\<rparr>"

definition dora_claims :: claims where
  "dora_claims =
     \<lparr>claim_sub = Some ''dora@example.com'', claim_role = Some (JStr ''employer''),
      claim_exp = Some 5000\<rparr>"

definition job1 :: document where
  \<comment> \<open>A job as \<open>create_job\<close> stores it.\<close>
  "job1 = \<lparr>doc_id = ''65b000000000000000000001'',
           doc_fields = [(''title'', JStr ''Engineer''), (''description'', JStr ''Build things''),
                         (''company'', JStr ''Acme''), (''salary_min'', JInt 50000),
                         (''salary_max'', JNull), (''location'', JStr ''Pune''),
                         (''skills'', JArr [JStr ''Go'', JStr ''SQL'']),
                         (''experience_required'', JNull), (''work_mode'', JStr ''remote''),
                         (''company_logo_url'', JNull), (''company_rating'', JNull),
                         (''reviews_count'', JNull),
                         (''created_by'', JStr ''65a000000000000000000003''),
                         (''posted_date'', JTime 1000), (''updated_at'', JTime 1000),
                         (''is_active'', JBool True), (''application_count'', JInt 0),
                         (''view_count'', JInt 0)]\<rparr>"

definition job1_body :: "(string \<times> jv) list" where
  \<comment> \<open>The twelve fields of \<open>job1\<close> as a request body.\<close>
  "job1_body =
     [(''title'', JStr ''Engineer''), (''description'', JStr ''Build things''),
      (''company'', JStr ''Acme''), (''salary_min'', JInt 50000), (''salary_max'', JNull),
      (''location'', JStr ''Pune''), (''skills'', JArr [JStr ''Go'', JStr ''SQL'']),
      (''experience_required'', JNull), (''work_mode'', JStr ''remote''),
      (''company_logo_url'', JNull), (''company_rating'', JNull), (''reviews_count'', JNull)]"

definition new_title_body :: "(string \<times> jv) list" where
  \<comment> \<open>A complete body that differs from \<open>job1\<close> in the title only.\<close>
  "new_title_body = AList.update ''title'' (JStr ''Senior Engineer'') job1_body"

definition title_only_body :: "(string \<times> jv) list" where
  "title_only_body = [(''title'', JStr ''Senior Engineer'')]"

definition job_without_counts :: document where
  \<comment> \<open>A job stored without \<open>application_count\<close> and \<open>view_count\<close>.\<close>
  "job_without_counts =
     job1\<lparr>doc_fields := filter (\<lambda>(k, v). k \<noteq> ''application_count'' \<and> k \<noteq> ''view_count'')
                            (doc_fields job1)\<rparr>"





section \<open>Applications\<close>













section \<open>Job search and job-alert matching\<close>

text \<open>
  A query is the Python dict handed to \<open>find\<close>: each key holds either a condition, a list
  of operators on that field, or the list of alternatives of \<open>$or\<close>. A bare value is
  the operator \<open>QEq\<close>. The store's regular-expression engine is a parameter \<open>rxs\<close>
  (pattern, options, subject), and so is \<open>fmt\<close>, the text that an f-string makes of a
  value. Only the selection of documents is modelled, not the order of the result.
\<close>

datatype qop = QEq jv | QRegex jv string | QIn "jv list" | QAll jv | QGte jv | QLte jv

datatype qval = QCond "qop list" | QOr "(string \<times> qop list) list"

fun str_le :: "string \<Rightarrow> string \<Rightarrow> bool" where
  "str_le [] t = True"
| "str_le (c # cs) [] = False"
| "str_le (c # cs) (d # ds) =
     ((of_char c :: nat) < of_char d \<or> (c = d \<and> str_le cs ds))"

definition jv_le :: "jv \<Rightarrow> jv \<Rightarrow> bool" where
  \<comment> \<open>The store's order, within one kind of value only.\<close>
  "jv_le a b =
     (case (a, b) of
        (JInt x, JInt y) \<Rightarrow> x \<le> y
      | (JInt x, JNum y) \<Rightarrow> of_int x \<le> y
      | (JNum x, JInt y) \<Rightarrow> x \<le> of_int y
      | (JNum x, JNum y) \<Rightarrow> x \<le> y
      | (JTime x, JTime y) \<Rightarrow> x \<le> y
      | (JStr x, JStr y) \<Rightarrow> str_le x y
      | _ \<Rightarrow> False)"

definition value_op :: "(string \<Rightarrow> string \<Rightarrow> string \<Rightarrow> bool) \<Rightarrow> qop \<Rightarrow> jv \<Rightarrow> bool" where
  "value_op rxs oper w =
     (case oper of
        QGte v \<Rightarrow> jv_le v w
      | QLte v \<Rightarrow> jv_le w v
      | QRegex (JStr p) opts \<Rightarrow> (case w of JStr s \<Rightarrow> rxs p opts s | _ \<Rightarrow> False)
      | _ \<Rightarrow> False)"

definition op_matches ::
  "(string \<Rightarrow> string \<Rightarrow> string \<Rightarrow> bool) \<Rightarrow> document \<Rightarrow> string \<Rightarrow> qop \<Rightarrow> bool"
where
  \<comment> \<open>\<open>$in\<close> asks for one of the listed values, \<open>$all\<close> for every one of them; on an
      array field the other operators ask for one element that satisfies them.\<close>
  "op_matches rxs d k oper =
     (case oper of
        QEq v \<Rightarrow> field_eq d k v
      | QIn vs \<Rightarrow> list_ex (field_eq d k) vs
      | QAll (JArr vs) \<Rightarrow> vs \<noteq> [] \<and> list_all (field_eq d k) vs
      | QAll _ \<Rightarrow> False
      | _ \<Rightarrow> (case get d k of
                None \<Rightarrow> False
              | Some (JArr xs) \<Rightarrow> list_ex (value_op rxs oper) xs
              | Some w \<Rightarrow> value_op rxs oper w))"

definition cond_matches ::
  "(string \<Rightarrow> string \<Rightarrow> string \<Rightarrow> bool) \<Rightarrow> document \<Rightarrow> string \<Rightarrow> qop list \<Rightarrow> bool"
where
  "cond_matches rxs d k opers = list_all (op_matches rxs d k) opers"

definition query_matches ::
  "(string \<Rightarrow> string \<Rightarrow> string \<Rightarrow> bool) \<Rightarrow> (string \<times> qval) list \<Rightarrow> document \<Rightarrow> bool"
where
  "query_matches rxs q d =
     list_all (\<lambda>(k, qv). case qv of
                  QCond opers \<Rightarrow> cond_matches rxs d k opers
                | QOr alts \<Rightarrow> list_ex (\<lambda>(k', opers). cond_matches rxs d k' opers) alts) q"

definition op_ok :: "qop \<Rightarrow> bool" where
  \<comment> \<open>The store refuses a \<open>$regex\<close> that is not a string and an \<open>$all\<close> that is not
      an array.\<close>
  "op_ok oper =
     (case oper of
        QRegex (JStr p) opts \<Rightarrow> True | QRegex _ opts \<Rightarrow> False
      | QAll (JArr vs) \<Rightarrow> True | QAll _ \<Rightarrow> False
      | _ \<Rightarrow> True)"

definition query_ok :: "(string \<times> qval) list \<Rightarrow> bool" where
  "query_ok q =
     list_all (\<lambda>(k, qv). case qv of
                  QCond opers \<Rightarrow> list_all op_ok opers
                | QOr alts \<Rightarrow> list_all (\<lambda>(k', opers). list_all op_ok opers) alts) q"

fun split_on :: "char \<Rightarrow> string \<Rightarrow> string list" where
  \<comment> \<open>\<open>s.split(c)\<close>\<close>
  "split_on c [] = [[]]"
| "split_on c (x # xs) =
     (if x = c then [] # split_on c xs
      else (case split_on c xs of [] \<Rightarrow> [[x]] | w # ws \<Rightarrow> (x # w) # ws))"

definition search_jobs_query ::
  "string \<Rightarrow> string \<Rightarrow> string \<Rightarrow> string \<Rightarrow> int \<Rightarrow> int \<Rightarrow> int \<Rightarrow> string \<Rightarrow> (string \<times> qval) list"
where
  \<comment> \<open>The query that \<open>search_jobs\<close> builds from its parameters.\<close>
  "search_jobs_query search location job_type work_mode salary_min experience_min
       experience_max skills_param =
     (let q0 = [(''is_active'', QCond [QEq (JBool True)])];
          q1 = (if search \<noteq> []
                then AList.update ''$or''
                       (QOr [(''title'', [QRegex (JStr search) ''i'']),
                            (''description'', [QRegex (JStr search) ''i'']),
                            (''skills'', [QIn [JStr search]])]) q0
                else q0);
          q2 = (if location \<noteq> []
                then AList.update ''location'' (QCond [QRegex (JStr location) ''i'']) q1 else q1);
          q3 = (if job_type \<noteq> []
                then AList.update ''work_mode'' (QCond [QEq (JStr job_type)]) q2 else q2);
          q4 = (if work_mode \<noteq> []
                then AList.update ''work_mode'' (QCond [QEq (JStr work_mode)]) q3 else q3);
          q5 = (if salary_min > 0
                then AList.update ''salary_min'' (QCond [QGte (JInt salary_min)]) q4 else q4);
          q6 = (if experience_min > 0 \<or> experience_max < 100
                then (let exp_query =
                            (if experience_min > 0 then [QGte (JInt experience_min)] else []) @
                            (if experience_max < 100 then [QLte (JInt experience_max)] else [])
                      in if exp_query \<noteq> []
                         then AList.update ''experience_required'' (QCond exp_query) q5 else q5)
                else q5);
          q7 = (if skills_param \<noteq> []
                then AList.update ''skills''
                       (QCond [QIn (map (\<lambda>s. JStr (strip s)) (split_on CHR '','' skills_param))]) q6
                else q6)
      in q7)"

definition search_jobs_matching ::
  "(string \<Rightarrow> string \<Rightarrow> string \<Rightarrow> bool) \<Rightarrow> document list \<Rightarrow> string \<Rightarrow> string \<Rightarrow> string \<Rightarrow>
     string \<Rightarrow> int \<Rightarrow> int \<Rightarrow> int \<Rightarrow> string \<Rightarrow> document list"
where
  \<comment> \<open>The jobs that \<open>search_jobs\<close> selects, before it sorts them and applies
      \<open>skip\<close> and \<open>limit\<close>.\<close>
  "search_jobs_matching rxs jobs search location job_type work_mode salary_min experience_min
       experience_max skills_param =
     filter (query_matches rxs
               (search_jobs_query search location job_type work_mode salary_min experience_min
                  experience_max skills_param)) jobs"

definition alert_cutoff :: "int \<Rightarrow> jv option \<Rightarrow> jv" where
  \<comment> \<open>The alert's \<open>last_triggered\<close>, or seven days (604800 seconds) before now when it
      has never fired.\<close>
  "alert_cutoff now last_triggered =
     (case last_triggered of
        None \<Rightarrow> JTime (now - 604800)
      | Some t \<Rightarrow> if py_truthy t then t else JTime (now - 604800))"

definition alert_query ::
  "(jv \<Rightarrow> string) \<Rightarrow> int \<Rightarrow> (string \<times> jv) list \<Rightarrow> jv option \<Rightarrow> (string \<times> qval) list"
where
  \<comment> \<open>The query that \<open>get_recent_jobs_for_alerts\<close> builds for one alert from its
      \<open>search_params\<close> and \<open>last_triggered\<close>.\<close>
  "alert_query fmt now search_params last_triggered =
     (let param = (\<lambda>k. case map_of search_params k of None \<Rightarrow> JNull | Some v \<Rightarrow> v);
          q0 = [(''is_active'', QCond [QEq (JBool True)])];
          q1 = (if py_truthy (param ''search'')
                then AList.update ''$or''
                       (QOr [(''title'', [QRegex (param ''search'') ''i'']),
                            (''description'', [QRegex (param ''search'') ''i'']),
                            (''skills'', [QIn [param ''search'']])]) q0
                else q0);
          q2 = (if py_truthy (param ''location'')
                then AList.update ''location'' (QCond [QRegex (param ''location'') ''i'']) q1
                else q1);
          q3 = (if py_truthy (param ''experience_min'')
                then AList.update ''experience_required''
                       (QCond [QRegex (JStr (fmt (param ''experience_min'') @ ''.*'')) ''i'']) q2
                else q2);
          q4 = (if py_truthy (param ''salary_min'')
                then AList.update ''salary_min'' (QCond [QGte (param ''salary_min'')]) q3 else q3);
          q5 = (if py_truthy (param ''job_type'')
                then AList.update ''job_type'' (QCond [QEq (param ''job_type'')]) q4 else q4);
          q6 = (if py_truthy (param ''work_mode'')
                then AList.update ''work_mode'' (QCond [QEq (param ''work_mode'')]) q5 else q5);
          q7 = (if py_truthy (param ''skills'')
                then AList.update ''skills'' (QCond [QAll (param ''skills'')]) q6 else q6)
      in AList.update ''posted_at'' (QCond [QGte (alert_cutoff now last_triggered)]) q7)"

definition recent_jobs_for_alert ::
  "(string \<Rightarrow> string \<Rightarrow> string \<Rightarrow> bool) \<Rightarrow> (jv \<Rightarrow> string) \<Rightarrow> int \<Rightarrow> document list \<Rightarrow>
     (string \<times> jv) list \<Rightarrow> jv option \<Rightarrow> http_error + document list"
where
  \<comment> \<open>The jobs found for one alert; a query that the store refuses ends in the
      handler's 500.\<close>
  "recent_jobs_for_alert rxs fmt now jobs search_params last_triggered =
     (let query = alert_query fmt now search_params last_triggered
      in if \<not> query_ok query then Inl (HTTPException 500 ''Error finding matching jobs'')
         else Inr (filter (query_matches rxs query) jobs))"

text \<open>Sample data: two recently posted jobs, one asking for Go only.\<close>

definition job_go :: document where
  "job_go = \<lparr>doc_id = ''65b000000000000000000002'',
             doc_fields = [(''title'', JStr ''Backend''), (''skills'', JArr [JStr ''Go'']),
                           (''is_active'', JBool True), (''posted_at'', JTime 900000)]\<rparr>"

definition job_go_sql :: document where
  "job_go_sql = \<lparr>doc_id = ''65b000000000000000000003'',
                 doc_fields = [(''title'', JStr ''Data''), (''skills'', JArr [JStr ''Go'', JStr ''SQL'']),
                               (''is_active'', JBool True), (''posted_at'', JTime 900000)]\<rparr>"

definition no_regex :: "string \<Rightarrow> string \<Rightarrow> string \<Rightarrow> bool" where
  "no_regex p opts s = False"

definition no_fmt :: "jv \<Rightarrow> string" where
  "no_fmt v = []"

section \<open>Properties of the binary64 model\<close>

lemma halvings_spec:
  "1 \<le> x \<Longrightarrow> 2 ^ halvings x \<le> x \<and> x < 2 ^ Suc (halvings x)"
proof (induction x rule: halvings.induct)
  case (1 x)
  show ?case
  proof (cases "2 \<le> x")
    case True
    then have "1 \<le> x / 2" by simp
    with 1 True have "2 ^ halvings (x / 2) \<le> x / 2 \<and> x / 2 < 2 ^ Suc (halvings (x / 2))"
      by blast
    moreover have "halvings x = Suc (halvings (x / 2))"
      using True by (subst halvings.simps) simp
    ultimately show ?thesis by (simp add: field_simps)
  next
    case False
    then have "halvings x = 0" by (subst halvings.simps) simp
    with False 1 show ?thesis by simp
  qed
qed

lemma halvings_lt_1: "x < 2 \<Longrightarrow> halvings x = 0"
  by (subst halvings.simps) simp

lemma doublings_ge_1: "\<not> (0 < x \<and> x < 1) \<Longrightarrow> doublings x = 0"
  by (subst doublings.simps) simp

lemma doublings_spec:
  "0 < x \<Longrightarrow> x < 1 \<Longrightarrow> 1 \<le> x * 2 ^ doublings x \<and> x * 2 ^ doublings x < 2"
proof (induction x rule: doublings.induct)
  case (1 x)
  have d: "doublings x = Suc (doublings (2 * x))"
    using 1 by (subst doublings.simps) simp
  show ?case
  proof (cases "2 * x < 1")
    case True
    with 1 have "1 \<le> 2 * x * 2 ^ doublings (2 * x) \<and> 2 * x * 2 ^ doublings (2 * x) < 2"
      by simp
    with d show ?thesis by (simp add: mult.assoc mult.left_commute)
  next
    case False
    then have "doublings (2 * x) = 0" by (simp add: doublings_ge_1)
    with d False 1 show ?thesis by simp
  qed
qed

lemma bexp_spec:
  assumes "0 < x"
  shows "2 powi bexp x \<le> x \<and> x < 2 powi (bexp x + 1)"
proof (cases "1 \<le> x")
  case True
  then have "doublings x = 0" by (simp add: doublings_ge_1)
  then have b: "bexp x = int (halvings x)" by (simp add: bexp_def)
  have "(2::rat) powi (int (halvings x) + 1) = 2 ^ Suc (halvings x)"
    by (simp add: power_int_add)
  with halvings_spec [OF True] b show ?thesis by simp
next
  case False
  then have lt: "x < 1" by simp
  then have "halvings x = 0" by (simp add: halvings_lt_1)
  then have b: "bexp x = - int (doublings x)" by (simp add: bexp_def)
  have p: "(2::rat) powi (- int (doublings x)) = 1 / 2 ^ doublings x"
    by (simp add: power_int_minus_divide)
  have "(2::rat) powi (1 - int (doublings x)) = 2 powi 1 / 2 powi int (doublings x)"
    by (rule power_int_diff) simp
  then have q: "(2::rat) powi (- int (doublings x) + 1) = 2 / 2 ^ doublings x"
    by simp
  from doublings_spec [OF assms lt] show ?thesis
    unfolding b p q by (simp add: field_simps)
qed

lemma bexp_mono:
  assumes "0 < x" "x \<le> y"
  shows "bexp x \<le> bexp y"
proof (rule ccontr)
  assume "\<not> bexp x \<le> bexp y"
  then have "bexp y + 1 \<le> bexp x" by simp
  then have "(2::rat) powi (bexp y + 1) \<le> 2 powi bexp x"
    by (intro power_int_increasing) simp_all
  moreover have "y < 2 powi (bexp y + 1)" using bexp_spec [of y] assms by simp
  moreover have "2 powi bexp x \<le> x" using bexp_spec [of x] assms by simp
  ultimately show False using assms by linarith
qed

lemma rne_of_int: "rne (of_int n) = n"
  by (simp add: rne_def)

lemma rne_bounds: "\<lfloor>y\<rfloor> \<le> rne y \<and> rne y \<le> \<lfloor>y\<rfloor> + 1"
  by (simp add: rne_def Let_def)

lemma rne_mono:
  assumes "y \<le> z"
  shows "rne y \<le> rne z"
proof (cases "\<lfloor>y\<rfloor> = \<lfloor>z\<rfloor>")
  case True
  have "y - of_int \<lfloor>y\<rfloor> \<le> z - of_int \<lfloor>z\<rfloor>" using assms True by simp
  then show ?thesis using True by (auto simp: rne_def Let_def)
next
  case False
  have "\<lfloor>y\<rfloor> \<le> \<lfloor>z\<rfloor>" using assms by (rule floor_mono)
  with False have "\<lfloor>y\<rfloor> + 1 \<le> \<lfloor>z\<rfloor>" by simp
  with rne_bounds [of y] rne_bounds [of z] show ?thesis by linarith
qed

lemma rne_error: "\<bar>of_int (rne y) - y\<bar> \<le> 1 / 2"
proof -
  have "of_int \<lfloor>y\<rfloor> \<le> y" "y < of_int \<lfloor>y\<rfloor> + 1" by linarith+
  then show ?thesis by (auto simp: rne_def Let_def abs_le_iff)
qed

lemma round_double_pos:
  "0 < x \<Longrightarrow> round_double x = of_int (rne (x * 2 powi (52 - bexp x))) / 2 powi (52 - bexp x)"
  by (simp add: round_double_def Let_def)

lemma scaled_range:
  assumes "0 < x"
  shows "2 ^ 52 \<le> x * 2 powi (52 - bexp x) \<and> x * 2 powi (52 - bexp x) < 2 ^ 53"
proof -
  let ?k = "bexp x"
  have s: "(2::rat) powi (52 - ?k) = 2 ^ 52 / 2 powi ?k"
    using power_int_diff [of "2::rat" 52 ?k] by simp
  have pos: "(0::rat) < 2 powi ?k" by simp
  have up: "(2::rat) powi (?k + 1) = 2 powi ?k * 2" by (simp add: power_int_add)
  from bexp_spec [OF assms] have lo: "2 powi ?k \<le> x" and hi: "x < 2 powi ?k * 2"
    unfolding up by simp_all
  have "2 ^ 52 \<le> x * (2 ^ 52 / 2 powi ?k)"
    using lo pos by (simp add: field_simps)
  moreover have "x * (2 ^ 52 / 2 powi ?k) < 2 ^ 53"
    using hi pos by (simp add: field_simps)
  ultimately show ?thesis unfolding s by simp
qed

lemma round_double_range:
  assumes "0 < x"
  shows "2 powi bexp x \<le> round_double x \<and> round_double x \<le> 2 powi (bexp x + 1)"
proof -
  let ?k = "bexp x"
  let ?s = "(2::rat) powi (52 - ?k)"
  have s: "?s = 2 ^ 52 / 2 powi ?k"
    using power_int_diff [of "2::rat" 52 ?k] by simp
  have pos: "(0::rat) < 2 powi ?k" by simp
  have up: "(2::rat) powi (?k + 1) = 2 powi ?k * 2" by (simp add: power_int_add)
  from scaled_range [OF assms] have a: "of_int (2 ^ 52) \<le> x * ?s" and b: "x * ?s \<le> of_int (2 ^ 53)"
    by simp_all
  have "rne (of_int (2 ^ 52)) \<le> rne (x * ?s)" using a by (rule rne_mono)
  then have lo: "2 ^ 52 \<le> rne (x * ?s)" by (simp only: rne_of_int)
  have "rne (x * ?s) \<le> rne (of_int (2 ^ 53))" using b by (rule rne_mono)
  then have hi: "rne (x * ?s) \<le> 2 ^ 53" by (simp only: rne_of_int)
  have lo': "(2::rat) ^ 52 \<le> of_int (rne (x * ?s))"
    using lo by (metis of_int_le_iff of_int_numeral of_int_power)
  have hi': "of_int (rne (x * ?s)) \<le> (2::rat) ^ 53"
    using hi by (metis of_int_le_iff of_int_numeral of_int_power)
  have "(2::rat) powi ?k \<le> of_int (rne (x * ?s)) / (2 ^ 52 / 2 powi ?k)"
    using lo' pos by (simp add: field_simps)
  moreover have "of_int (rne (x * ?s)) / (2 ^ 52 / 2 powi ?k) \<le> (2::rat) powi ?k * 2"
    using hi' pos by (simp add: field_simps)
  ultimately show ?thesis
    unfolding round_double_pos [OF assms] up s by simp
qed

lemma round_double_nonneg: "0 \<le> x \<Longrightarrow> 0 \<le> round_double x"
proof (cases "x = 0")
  case True
  then show ?thesis by (simp add: round_double_def)
next
  case False
  assume "0 \<le> x"
  with False have p: "0 < x" by simp
  have "(0::rat) \<le> 2 powi bexp x" by simp
  with round_double_range [OF p] show ?thesis by linarith
qed

lemma round_double_mono:
  assumes "0 \<le> x" "x \<le> y"
  shows "round_double x \<le> round_double y"
proof (cases "x = 0")
  case True
  then show ?thesis using assms round_double_nonneg [of y] by (simp add: round_double_def)
next
  case False
  with assms have px: "0 < x" and py: "0 < y" by simp_all
  show ?thesis
  proof (cases "bexp x = bexp y")
    case True
    let ?s = "(2::rat) powi (52 - bexp y)"
    have "x * ?s \<le> y * ?s" using assms by (simp add: mult_right_mono)
    then have "rne (x * ?s) \<le> rne (y * ?s)" by (rule rne_mono)
    then have "(of_int (rne (x * ?s)) :: rat) / ?s \<le> of_int (rne (y * ?s)) / ?s"
      by (simp add: divide_right_mono)
    then show ?thesis
      unfolding round_double_pos [OF px] round_double_pos [OF py] True .
  next
    case False
    with bexp_mono [OF px assms(2)] have "bexp x + 1 \<le> bexp y" by simp
    then have "(2::rat) powi (bexp x + 1) \<le> 2 powi bexp y"
      by (intro power_int_increasing) simp_all
    with round_double_range [OF px] round_double_range [OF py] show ?thesis by linarith
  qed
qed

lemma round_double_error:
  assumes "0 < x"
  shows "\<bar>round_double x - x\<bar> \<le> x / 2 ^ 53"
proof -
  let ?k = "bexp x"
  let ?s = "(2::rat) powi (52 - ?k)"
  have s: "?s = 2 ^ 52 / 2 powi ?k"
    using power_int_diff [of "2::rat" 52 ?k] by simp
  have pos: "(0::rat) < 2 powi ?k" by simp
  have spos: "0 < ?s" by simp
  have "round_double x - x = (of_int (rne (x * ?s)) - x * ?s) / ?s"
    unfolding round_double_pos [OF assms] using spos by (simp add: field_simps)
  then have "\<bar>round_double x - x\<bar> = \<bar>of_int (rne (x * ?s)) - x * ?s\<bar> / ?s"
    using spos by simp
  also have "\<dots> \<le> (1 / 2) / ?s"
    by (rule divide_right_mono [OF rne_error]) simp
  also have "\<dots> = 2 powi ?k / 2 ^ 53" unfolding s by simp
  also have "\<dots> \<le> x / 2 ^ 53"
    using bexp_spec [OF assms] by (simp add: divide_right_mono)
  finally show ?thesis .
qed

lemma round_double_1: "round_double 1 = 1" by code_simp
lemma round_double_100: "round_double 100 = 100" by code_simp

section \<open>Properties of the scorer\<close>

lemma tally_pair:
  "tally w oks (e, t) = (e + of_nat (w * length (filter id oks)), t + int (w * length oks))"
  unfolding tally_def
  by (induction oks arbitrary: e t) (simp_all add: algebra_simps)

lemma fst_tally: "fst (tally w oks st) = fst st + of_nat (w * length (filter id oks))"
  by (cases st) (simp add: tally_pair)

lemma snd_tally: "snd (tally w oks st) = snd st + int (w * length oks)"
  by (cases st) (simp add: tally_pair)

lemma filter_id_map: "length (filter id (map P xs)) = count_ok P xs"
  by (induction xs) (simp_all add: count_ok_def)

lemma count_ok_le: "count_ok P xs \<le> length xs"
  by (simp add: count_ok_def)

lemma total_points_eq:
  "total_points p =
     9 + 2 * int (length (experience p)) + 2 * int (length (education p))
       + (if skills p = [] then 0 else 10)
       + (if projects p = [] then 4 else 2 * int (length (projects p)))"
  by (simp add: total_points_def calculate_points_def Let_def snd_tally required_fields_def
      optional_fields_def)

lemma earned_points_eq:
  "earned_points p =
     of_nat (2 * count_ok field_filled (required_fields p) + count_ok field_filled (optional_fields p)
       + 2 * count_ok experience_ok (experience p) + 2 * count_ok education_ok (education p)
       + 2 * count_ok project_ok (projects p))
     + (if skills p = [] then 0 else min (of_nat (length (skills p)) * (1 / 2)) 10)"
  by (simp add: earned_points_def calculate_points_def Let_def fst_tally filter_id_map count_ok_def)

lemma earned_nonneg: "0 \<le> earned_points p"
  unfolding earned_points_eq by simp

lemma earned_le_total: "earned_points p \<le> of_int (total_points p)"
proof -
  have r: "count_ok field_filled (required_fields p) \<le> 2"
    using count_ok_le [of field_filled "required_fields p"] by (simp add: required_fields_def)
  have o: "count_ok field_filled (optional_fields p) \<le> 5"
    using count_ok_le [of field_filled "optional_fields p"] by (simp add: optional_fields_def)
  note x = count_ok_le [of experience_ok "experience p"]
  note d = count_ok_le [of education_ok "education p"]
  note j = count_ok_le [of project_ok "projects p"]
  have s: "(if skills p = [] then 0 else min (of_nat (length (skills p)) * (1 / 2)) 10)
        \<le> (if skills p = [] then 0 else (10::rat))" by simp
  have "(of_nat (2 * count_ok field_filled (required_fields p) + count_ok field_filled (optional_fields p)
       + 2 * count_ok experience_ok (experience p) + 2 * count_ok education_ok (education p)
       + 2 * count_ok project_ok (projects p)) :: rat)
     \<le> of_nat (9 + 2 * length (experience p) + 2 * length (education p) + 2 * length (projects p))"
    unfolding of_nat_le_iff using r o x d j by linarith
  also have "\<dots> \<le> of_int (9 + 2 * int (length (experience p)) + 2 * int (length (education p))
       + (if projects p = [] then 4 else 2 * int (length (projects p))))"
    by simp
  finally show ?thesis
    unfolding earned_points_eq total_points_eq using s by (simp split: if_splits)
qed

lemma total_ge_11: "11 \<le> total_points p"
  unfolding total_points_eq by (cases "projects p") simp_all

lemma total_points_pos: "0 < total_points p"
  using total_ge_11 [of p] by simp

lemma quotient_unit:
  "0 \<le> earned_points p / of_int (total_points p) \<and> earned_points p / of_int (total_points p) \<le> 1"
  using earned_nonneg [of p] earned_le_total [of p] total_points_pos [of p] by simp

lemma fdiv_unit:
  "0 \<le> fdiv (earned_points p) (of_int (total_points p)) \<and>
   fdiv (earned_points p) (of_int (total_points p)) \<le> 1"
proof -
  from quotient_unit [of p] have a: "0 \<le> earned_points p / of_int (total_points p)"
    and b: "earned_points p / of_int (total_points p) \<le> 1" by simp_all
  from round_double_mono [OF a b] round_double_nonneg [OF a] show ?thesis
    by (simp add: fdiv_def round_double_1)
qed

lemma product_range:
  "0 \<le> fmul (fdiv (earned_points p) (of_int (total_points p))) 100 \<and>
   fmul (fdiv (earned_points p) (of_int (total_points p))) 100 \<le> 100"
proof -
  let ?a = "fdiv (earned_points p) (of_int (total_points p))"
  from fdiv_unit [of p] have a: "0 \<le> ?a * 100" and b: "?a * 100 \<le> 100" by simp_all
  from round_double_mono [OF a b] round_double_nonneg [OF a] show ?thesis
    by (simp add: fmul_def round_double_100)
qed

lemma completion_percentage_range:
  "0 \<le> completion_percentage p \<and> completion_percentage p \<le> 100"
proof -
  let ?y = "fmul (fdiv (earned_points p) (of_int (total_points p))) 100"
  from product_range [of p] have a: "0 \<le> ?y" and b: "?y \<le> 100" by simp_all
  have "\<lfloor>?y\<rfloor> \<le> \<lfloor>100::rat\<rfloor>" using b by (rule floor_mono)
  then show ?thesis using a by (simp add: completion_percentage_def py_int_def)
qed

lemma score_eq_percentage: "calculate_profile_completion p = completion_percentage p"
  using completion_percentage_range [of p] total_points_pos [of p]
  by (simp add: calculate_profile_completion_def)

lemma score_mono_earned:
  assumes "total_points p' = total_points p" "earned_points p \<le> earned_points p'"
  shows "calculate_profile_completion p \<le> calculate_profile_completion p'"
proof -
  let ?t = "of_int (total_points p) :: rat"
  have t: "0 < ?t" using total_points_pos [of p] by simp
  have q0: "0 \<le> earned_points p / ?t" using quotient_unit [of p] by simp
  have q: "earned_points p / ?t \<le> earned_points p' / ?t"
    using assms(2) t by (simp add: divide_right_mono)
  have a0: "0 \<le> fdiv (earned_points p) ?t * 100" using fdiv_unit [of p] by simp
  have "fdiv (earned_points p) ?t \<le> fdiv (earned_points p') ?t"
    unfolding fdiv_def using q0 q by (rule round_double_mono)
  then have "fdiv (earned_points p) ?t * 100 \<le> fdiv (earned_points p') ?t * 100" by simp
  with a0 have "fmul (fdiv (earned_points p) ?t) 100 \<le> fmul (fdiv (earned_points p') ?t) 100"
    unfolding fmul_def by (rule round_double_mono)
  then have "\<lfloor>fmul (fdiv (earned_points p) ?t) 100\<rfloor> \<le> \<lfloor>fmul (fdiv (earned_points p') ?t) 100\<rfloor>"
    by (rule floor_mono)
  moreover have "0 \<le> fmul (fdiv (earned_points p) ?t) 100" using product_range [of p] by simp
  moreover have "0 \<le> fmul (fdiv (earned_points p') ?t) 100"
    using product_range [of p'] assms(1) by simp
  ultimately have "completion_percentage p \<le> completion_percentage p'"
    by (simp add: completion_percentage_def py_int_def assms(1))
  then show ?thesis by (simp add: score_eq_percentage)
qed

lemma set_optional_total: "total_points (set_optional f v p) = total_points p"
  by (cases f) (simp_all add: total_points_eq)

lemma set_optional_earned:
  assumes "field_filled v"
  shows "earned_points p \<le> earned_points (set_optional f v p)"
  using assms
  by (cases f) (simp_all add: earned_points_eq count_ok_def required_fields_def optional_fields_def)

lemma round_double_error0:
  assumes "0 \<le> x"
  shows "\<bar>round_double x - x\<bar> \<le> x / 2 ^ 53"
proof (cases "x = 0")
  case True
  then show ?thesis by (simp add: round_double_def)
next
  case False
  with assms have "0 < x" by simp
  then show ?thesis by (rule round_double_error)
qed

lemma product_error:
  fixes q :: rat
  assumes "0 \<le> q" "q \<le> 1"
  shows "\<bar>fmul (round_double q) 100 - 100 * q\<bar> \<le> 200 / 2 ^ 53"
proof -
  let ?a = "round_double q"
  have a0: "0 \<le> ?a" using assms(1) by (rule round_double_nonneg)
  have a1: "?a \<le> 1" using round_double_mono [OF assms] by (simp add: round_double_1)
  have e1: "\<bar>?a - q\<bar> \<le> q / 2 ^ 53" using assms(1) by (rule round_double_error0)
  have p0: "0 \<le> ?a * 100" using a0 by simp
  have e2: "\<bar>round_double (?a * 100) - ?a * 100\<bar> \<le> ?a * 100 / 2 ^ 53"
    using p0 by (rule round_double_error0)
  have b1: "q / 2 ^ 53 \<le> 1 / 2 ^ 53" using assms(2) by (simp add: divide_right_mono)
  have b2: "?a * 100 / 2 ^ 53 \<le> 100 / 2 ^ 53" using a1 by (simp add: divide_right_mono)
  have "\<bar>round_double (?a * 100) - 100 * q\<bar>
      \<le> \<bar>round_double (?a * 100) - ?a * 100\<bar> + 100 * \<bar>?a - q\<bar>"
  proof -
    have "\<bar>round_double (?a * 100) - 100 * q\<bar>
        = \<bar>(round_double (?a * 100) - ?a * 100) + 100 * (?a - q)\<bar>"
      by (simp add: algebra_simps)
    also have "\<dots> \<le> \<bar>round_double (?a * 100) - ?a * 100\<bar> + \<bar>100 * (?a - q)\<bar>"
      by (rule abs_triangle_ineq)
    also have "\<bar>100 * (?a - q)\<bar> = 100 * \<bar>?a - q\<bar>"
      by (simp only: abs_mult)
    finally show ?thesis .
  qed
  also have "\<dots> \<le> 100 / 2 ^ 53 + 100 * (1 / 2 ^ 53)"
  proof (rule add_mono)
    show "\<bar>round_double (?a * 100) - ?a * 100\<bar> \<le> 100 / 2 ^ 53"
      using e2 b2 by (rule order_trans)
    have "\<bar>?a - q\<bar> \<le> 1 / 2 ^ 53" using e1 b1 by (rule order_trans)
    then show "100 * \<bar>?a - q\<bar> \<le> 100 * (1 / 2 ^ 53)"
      by (rule mult_left_mono) simp
  qed
  finally show ?thesis by (simp add: fmul_def)
qed

lemma hundred_earned_whole: "\<exists>m::int. 100 * earned_points p = of_int m"
proof -
  let ?n = "length (skills p)"
  have "min (of_nat ?n * (1 / 2)) (10::rat) = of_nat (min ?n 20) / 2"
    by (simp add: min_def)
  then have "100 * min (of_nat ?n * (1 / 2)) (10::rat) = of_int (50 * int (min ?n 20))"
    by simp
  then have s: "100 * (if skills p = [] then 0 else min (of_nat ?n * (1 / 2)) (10::rat))
      = of_int (if skills p = [] then 0 else 50 * int (min ?n 20))"
    by simp
  obtain a :: nat where a: "earned_points p = of_nat a + (if skills p = [] then 0 else min (of_nat ?n * (1 / 2)) (10::rat))"
    using earned_points_eq [of p] by blast
  have "100 * earned_points p
      = of_int (100 * int a + (if skills p = [] then 0 else 50 * int (min ?n 20)))"
    unfolding a using s by (simp add: algebra_simps)
  then show ?thesis by blast
qed

lemma spec_score_floor:
  "spec_score p = \<lfloor>100 * earned_points p / of_int (total_points p)\<rfloor>"
proof -
  let ?X = "100 * earned_points p / of_int (total_points p)"
  have "?X = 100 * (earned_points p / of_int (total_points p))" by simp
  with quotient_unit [of p] have a: "0 \<le> ?X" and b: "?X \<le> 100" by simp_all
  have "\<lfloor>0::rat\<rfloor> \<le> \<lfloor>?X\<rfloor>" using a by (rule floor_mono)
  moreover have "\<lfloor>?X\<rfloor> \<le> \<lfloor>100::rat\<rfloor>" using b by (rule floor_mono)
  ultimately show ?thesis using total_points_pos [of p] by (simp add: spec_score_def)
qed

lemma score_floor:
  "calculate_profile_completion p
     = \<lfloor>fmul (fdiv (earned_points p) (of_int (total_points p))) 100\<rfloor>"
  using product_range [of p]
  by (simp add: score_eq_percentage completion_percentage_def py_int_def)

lemma score_near_spec:
  assumes small: "total_points p < 2 ^ 45"
  shows "spec_score p - 1 \<le> calculate_profile_completion p"
    and "calculate_profile_completion p \<le> spec_score p"
    and "of_int \<lfloor>100 * earned_points p / of_int (total_points p)\<rfloor>
           \<noteq> 100 * earned_points p / of_int (total_points p)
         \<Longrightarrow> calculate_profile_completion p = spec_score p"
proof -
  let ?t = "total_points p"
  let ?T = "of_int ?t :: rat"
  let ?X = "100 * earned_points p / ?T"
  let ?y = "fmul (fdiv (earned_points p) ?T) 100"
  let ?k = "\<lfloor>?X\<rfloor>"
  obtain m :: int where m: "100 * earned_points p = of_int m"
    using hundred_earned_whole [of p] by blast
  have tpos: "0 < ?t" by (rule total_points_pos)
  then have Tpos: "0 < ?T" by simp
  have T1: "1 \<le> ?T" using tpos by simp
  have k: "?k = m div ?t" unfolding m by (rule floor_divide_of_int_eq)
  have md: "m = ?k * ?t + m mod ?t" unfolding k by simp
  have r0: "0 \<le> m mod ?t" and r1: "m mod ?t \<le> ?t - 1" using tpos by simp_all
  have X: "?X = of_int ?k + of_int (m mod ?t) / ?T"
  proof -
    have "?X = of_int (?k * ?t + m mod ?t) / ?T" using m md by simp
    also have "\<dots> = of_int ?k + of_int (m mod ?t) / ?T"
      using Tpos by (simp add: field_simps)
    finally show ?thesis .
  qed
  have "(of_int (m mod ?t) :: rat) \<le> of_int (?t - 1)"
    using r1 by (simp only: of_int_le_iff)
  then have "of_int (m mod ?t) / ?T \<le> of_int (?t - 1) / ?T"
    by (rule divide_right_mono) (use Tpos in simp)
  also have "\<dots> = 1 - 1 / ?T" using Tpos by (simp add: field_simps)
  finally have "of_int (m mod ?t) / ?T \<le> 1 - 1 / ?T" .
  then have Xhi: "?X \<le> of_int ?k + 1 - 1 / ?T" using X by linarith
  have Xlo: "of_int ?k \<le> ?X" by simp
  have "\<bar>fmul (round_double (earned_points p / ?T)) 100 - 100 * (earned_points p / ?T)\<bar>
      \<le> 200 / 2 ^ 53"
    using quotient_unit [of p] by (intro product_error) simp_all
  then have err0: "\<bar>?y - ?X\<bar> \<le> 200 / 2 ^ 53" by (simp add: fdiv_def)
  define d :: rat where "d = 200 / 2 ^ 53"
  have err: "\<bar>?y - ?X\<bar> \<le> d" using err0 unfolding d_def .
  have "?T < 2 ^ 45"
    using small by (metis of_int_less_iff of_int_numeral of_int_power)
  then have "200 * ?T < 2 ^ 53" by simp
  then have tiny: "d < 1 / ?T" unfolding d_def using Tpos by (simp add: field_simps)
  have inv1: "1 / ?T \<le> 1" using T1 by simp
  have yhi: "?y \<le> ?X + d" using abs_le_D1 [OF err] by linarith
  have ylo: "?X - d \<le> ?y" using abs_le_D2 [OF err] by linarith
  have "?y < of_int ?k + 1" using yhi tiny Xhi by linarith
  then have "?y < of_int (?k + 1)" by simp
  then have up: "\<lfloor>?y\<rfloor> < ?k + 1" by (simp only: floor_less_iff)
  have "of_int ?k - 1 \<le> ?y" using ylo tiny Xlo inv1 by linarith
  then have "of_int (?k - 1) \<le> ?y" by simp
  then have low: "?k - 1 \<le> \<lfloor>?y\<rfloor>" by (simp only: le_floor_iff)
  show "spec_score p - 1 \<le> calculate_profile_completion p"
    using low by (simp add: spec_score_floor score_floor)
  show "calculate_profile_completion p \<le> spec_score p"
    using up by (simp add: spec_score_floor score_floor)
  assume frac: "of_int ?k \<noteq> ?X"
  have "m mod ?t \<noteq> 0"
  proof
    assume "m mod ?t = 0"
    then have "of_int (m mod ?t) / ?T = 0" by simp
    with X have "?X = of_int ?k" by linarith
    with frac show False by simp
  qed
  with r0 have "1 \<le> m mod ?t" by simp
  then have "(1::rat) \<le> of_int (m mod ?t)" by (metis of_int_1 of_int_le_iff)
  then have "1 / ?T \<le> of_int (m mod ?t) / ?T" using Tpos by (simp add: divide_right_mono)
  then have "of_int ?k + 1 / ?T \<le> ?X" using X by linarith
  then have "of_int ?k \<le> ?y" using ylo tiny by linarith
  then have "?k \<le> \<lfloor>?y\<rfloor>" by (simp only: le_floor_iff)
  with up show "calculate_profile_completion p = spec_score p"
    by (simp add: spec_score_floor score_floor)
qed

subsection \<open>Claims about the scorer\<close>

text \<open>
  What holds of the score for every profile: it lies between 0 and 100, and the empty
  profile with no sections scores exactly 0. The score is the integer part of the binary64
  value of \<open>(earned_points / total_points) * 100\<close>: for a denominator below \<open>2 ^ 45\<close> it
  is \<open>floor(100 * numerator / denominator)\<close> or one less, and it is exactly that floor
  whenever \<open>100 * numerator / denominator\<close> is not a whole number.
\<close>

lemma scorer_range_and_formula:
  "0 \<le> calculate_profile_completion p \<and> calculate_profile_completion p \<le> 100 \<and>
   calculate_profile_completion empty_profile = 0 \<and>
   (total_points p < 2 ^ 45 \<longrightarrow>
      spec_score p - 1 \<le> calculate_profile_completion p \<and>
      calculate_profile_completion p \<le> spec_score p \<and>
      (of_int \<lfloor>100 * earned_points p / of_int (total_points p)\<rfloor>
         \<noteq> 100 * earned_points p / of_int (total_points p)
       \<longrightarrow> calculate_profile_completion p = spec_score p))"
proof -
  have range: "0 \<le> calculate_profile_completion p \<and> calculate_profile_completion p \<le> 100"
    using completion_percentage_range [of p] by (simp add: score_eq_percentage)
  have empty: "calculate_profile_completion empty_profile = 0"
    by code_simp
  show ?thesis
    using range empty score_near_spec [of p] by blast
qed

lemma scorer_range_and_formula_example:
  "total_points profile_name_only < 2 ^ 45 \<and>
   of_int \<lfloor>100 * earned_points profile_name_only / of_int (total_points profile_name_only)\<rfloor>
     \<noteq> 100 * earned_points profile_name_only / of_int (total_points profile_name_only) \<and>
   calculate_profile_completion profile_name_only = spec_score profile_name_only \<and>
   spec_score profile_name_only = 15"
proof -
  have small: "total_points profile_name_only < 2 ^ 45"
    by code_simp
  have frac: "of_int \<lfloor>100 * earned_points profile_name_only / of_int (total_points profile_name_only)\<rfloor>
     \<noteq> 100 * earned_points profile_name_only / of_int (total_points profile_name_only)"
    by code_simp
  have val: "spec_score profile_name_only = 15"
    by code_simp
  from scorer_range_and_formula [of profile_name_only] small frac
  have "calculate_profile_completion profile_name_only = spec_score profile_name_only"
    by blast
  with small frac val show ?thesis by blast
qed

text \<open>
  Claim C4 requires the score to be \<open>floor(100 * numerator / denominator)\<close>. The scorer
  computes its completion percentage in binary64 and truncates: with 14.5 points of 25,
  which is 58 percent exactly, the quotient \<open>14.5 / 25\<close> is just below 0.58, its product
  with 100 rounds to 57.99999999999999, and the scorer returns 57.
\<close>

theorem scorer_misses_exact_percentage:
  "earned_points profile_25 = 29 / 2 \<and> total_points profile_25 = 25 \<and>
   100 * earned_points profile_25 / of_int (total_points profile_25) = 58 \<and>
   spec_score profile_25 = 58 \<and>
   calculate_profile_completion profile_25 = 57"
  by code_simp

text \<open>
  Claim C5. Filling in one of the optional fields (phone, address, headline, summary,
  profile picture) with a non-blank value, all other content unchanged, never lowers the
  score.
\<close>

theorem score_monotone_optional:
  "field_filled v \<Longrightarrow>
   calculate_profile_completion p \<le> calculate_profile_completion (set_optional f v p)"
  by (rule score_mono_earned) (simp_all add: set_optional_total set_optional_earned)

theorem score_monotone_optional_witness:
  "field_filled (Some ''5550100'') \<and>
   \<not> field_filled (get_optional Phone empty_profile) \<and>
   calculate_profile_completion empty_profile
     \<le> calculate_profile_completion (set_optional Phone (Some ''5550100'') empty_profile) \<and>
   calculate_profile_completion (set_optional Phone (Some ''5550100'') empty_profile) = 7"
proof -
  have filled: "field_filled (Some ''5550100'')"
    by code_simp
  have blank: "\<not> field_filled (get_optional Phone empty_profile)"
    by code_simp
  have val: "calculate_profile_completion (set_optional Phone (Some ''5550100'') empty_profile) = 7"
    by code_simp
  from score_monotone_optional [OF filled, of empty_profile Phone] blank val filled
  show ?thesis by blast
qed

text \<open>
  Claim C10, as amended. The earned points never exceed the total points; the total is at
  least 11, and at least 13 for a profile without projects; so the denominator is never 0,
  and the final \<open>min(..., 100)\<close> changes nothing: the value before the cap already lies
  in \<open>[0, 100]\<close>.
\<close>

theorem points_invariant:
  "earned_points p \<le> of_int (total_points p) \<and> 11 \<le> total_points p \<and>
   (projects p = [] \<longrightarrow> 13 \<le> total_points p) \<and> total_points p \<noteq> 0 \<and>
   calculate_profile_completion p = completion_percentage p \<and>
   0 \<le> completion_percentage p \<and> completion_percentage p \<le> 100"
proof -
  have "projects p = [] \<longrightarrow> 13 \<le> total_points p"
    unfolding total_points_eq by simp
  moreover have "total_points p \<noteq> 0"
    using total_ge_11 [of p] by simp
  ultimately show ?thesis
    using earned_le_total [of p] total_ge_11 [of p] score_eq_percentage [of p]
      completion_percentage_range [of p] by blast
qed

theorem points_invariant_witness:
  "projects empty_profile = [] \<and> 13 \<le> total_points empty_profile \<and>
   total_points empty_profile = 13"
proof -
  have none: "projects empty_profile = []"
    by (simp add: empty_profile_def)
  have val: "total_points empty_profile = 13"
    by code_simp
  from points_invariant [of empty_profile] none val show ?thesis by blast
qed

text \<open>
  Claim C10 as stated fails: a profile with exactly one project and nothing else has 11
  total points, since a non-empty project list adds 2 per project and not the 4 that an
  empty list adds.
\<close>

theorem total_points_counterexample:
  "total_points profile_one_project = 11 \<and> \<not> 13 \<le> total_points profile_one_project"
  by code_simp

section \<open>Properties of token verification and login\<close>

lemma get_set_stored_role: "k \<noteq> ''role'' \<Longrightarrow> get (set_stored_role r u) k = get u k"
  by (simp add: get_def set_stored_role_def update_conv')

lemma doc_id_set_stored_role: "doc_id (set_stored_role r u) = doc_id u"
  by (simp add: set_stored_role_def)

lemma field_eq_set_stored_role:
  "k \<noteq> ''role'' \<Longrightarrow> field_eq (set_stored_role r u) k v = field_eq u k v"
  by (simp add: field_eq_def get_set_stored_role doc_id_set_stored_role)

lemma find_map_invariant:
  "(\<And>x. P (g x) = P x) \<Longrightarrow> find P (map g xs) = map_option g (find P xs)"
  by (induction xs) simp_all

lemma find_one_email_set_stored_role:
  "find_one [(''email'', v)] (map (set_stored_role r) users)
     = map_option (set_stored_role r) (find_one [(''email'', v)] users)"
  unfolding find_one_def
  by (rule find_map_invariant) (simp add: matches_filter_def field_eq_set_stored_role)

lemma jwt_decode_Some:
  "jwt_decode key now tok = Some p \<longleftrightarrow>
     tok = Signed key p \<and> (case claim_exp p of None \<Rightarrow> True | Some e \<Rightarrow> \<not> e < now)"
  by (auto simp: jwt_decode_def split: token.splits option.splits if_splits)

lemma matches_filter_id: "matches_filter [(''_id'', JStr uid)] d \<longleftrightarrow> doc_id d = uid"
  by (auto simp: matches_filter_def field_eq_def)

lemma find_one_Some: "find_one flt coll = Some d \<Longrightarrow> d \<in> set coll \<and> matches_filter flt d"
  unfolding find_one_def by (auto simp: find_Some_iff)

lemma update_first_distinct:
  assumes "distinct (map key xs)"
  shows "update_first (\<lambda>d. key d = k) f xs = map (\<lambda>d. if key d = k then f d else d) xs"
  using assms
proof (induction xs)
  case Nil
  then show ?case by simp
next
  case (Cons x xs)
  show ?case
  proof (cases "key x = k")
    case True
    with Cons.prems have "\<forall>d\<in>set xs. key d \<noteq> k" by (auto simp: image_iff)
    then have "map (\<lambda>d. if key d = k then f d else d) xs = xs"
      by (induction xs) simp_all
    with True show ?thesis by simp
  next
    case False
    with Cons show ?thesis by simp
  qed
qed

lemma update_user_status_map:
  assumes "distinct (map doc_id users)" and "u \<in> set users"
  shows "update_user_status (doc_id u) b users
           = map (\<lambda>d. if doc_id d = doc_id u then set_active b d else d) users"
proof -
  have f: "find_one [(''_id'', JStr (doc_id u))] users = Some u"
    unfolding find_one_def using assms
  proof (induction users)
    case Nil
    then show ?case by simp
  next
    case (Cons x xs)
    then show ?case by (auto simp: matches_filter_id)
  qed
  have m: "matches_filter [(''_id'', JStr (doc_id u))] = (\<lambda>d. doc_id d = doc_id u)"
    by (rule ext) (simp add: matches_filter_id)
  have same: "\<And>d. d \<in> set users \<Longrightarrow> doc_id d = doc_id u \<Longrightarrow> d = u"
    using assms by (meson distinct_map inj_onD)
  have "update_user_status (doc_id u) b users
          = update_first (\<lambda>d. doc_id d = doc_id u) (\<lambda>_. set_active b u) users"
    by (simp add: update_user_status_def update_one_def f m set_fields_def dict_update_def set_active_def)
  also have "\<dots> = map (\<lambda>d. if doc_id d = doc_id u then set_active b u else d) users"
    using assms(1) by (rule update_first_distinct)
  also have "\<dots> = map (\<lambda>d. if doc_id d = doc_id u then set_active b d else d) users"
    by (rule map_cong) (auto dest: same)
  finally show ?thesis .
qed

lemma get_set_active: "k \<noteq> ''is_active'' \<Longrightarrow> get (set_active b d) k = get d k"
  by (simp add: get_def set_active_def update_conv')

lemma get_set_active_same: "get (set_active b d) ''is_active'' = Some (JBool b)"
  by (simp add: get_def set_active_def update_conv')

lemma doc_id_set_active: "doc_id (set_active b d) = doc_id d"
  by (simp add: set_active_def)

lemma find_one_email_after_status:
  assumes "distinct (map doc_id users)" and "u \<in> set users"
  shows "find_one [(''email'', v)] (update_user_status (doc_id u) b users)
           = map_option (\<lambda>d. if doc_id d = doc_id u then set_active b d else d)
               (find_one [(''email'', v)] users)"
  unfolding update_user_status_map [OF assms] find_one_def
  by (rule find_map_invariant)
     (simp add: matches_filter_def field_eq_def get_set_active doc_id_set_active)

lemma verify_valid_token:
  assumes "find_one [(''email'', JStr m)] users = Some u" and "get u ''email'' = Some e"
    and "claim_sub c = Some m" and "claim_exp c = Some t" and "now \<le> t"
  shows "get_current_user ev now users (Signed (SECRET_KEY ev) c) =
           Inr \<lparr>ident_id = doc_id u, ident_email = e,
                ident_role = (case claim_role c of None \<Rightarrow> JStr ''job_seeker'' | Some r \<Rightarrow> r)\<rparr>"
  using assms by (simp add: get_current_user_def jwt_decode_def Let_def)

lemma login_inactive:
  assumes "find_one [(''email'', JStr (fst (login_credentials mail pw body)))] users = Some u"
    and "get u ''is_active'' = Some (JBool False)"
  shows "isl (login ev now users body mail pw)"
  using assms
  by (cases "login_credentials mail pw body")
     (simp add: login_def py_truthy_def split: option.splits)

lemma login_success:
  assumes "login ev now users body mail pw = Inr (tok, resp)"
  shows "\<exists>u h n r. find_one [(''email'', JStr (fst (login_credentials mail pw body)))] users = Some u
     \<and> get u ''hashed_password'' = Some h
     \<and> verify_password ev (snd (login_credentials mail pw body)) h
     \<and> get u ''email'' = Some (JStr (fst (login_credentials mail pw body)))
     \<and> get u ''full_name'' = Some n
     \<and> r = (case get u ''role'' of None \<Rightarrow> JStr ''job_seeker'' | Some r \<Rightarrow> r)
     \<and> tok = create_access_token ev now (fst (login_credentials mail pw body)) r
     \<and> \<not> utf8_len (snd (login_credentials mail pw body)) > 72
     \<and> fst (login_credentials mail pw body) \<noteq> [] \<and> snd (login_credentials mail pw body) \<noteq> []"
proof (cases "login_credentials mail pw body")
  case (Pair m p)
  from assms Pair obtain u where u: "find_one [(''email'', JStr m)] users = Some u"
    by (auto simp: login_def split: if_splits option.splits)
  from find_one_Some [OF u] have "field_eq u ''email'' (JStr m)"
    by (simp add: matches_filter_def)
  then have em: "\<And>e. get u ''email'' = Some (JStr e) \<Longrightarrow> e = m"
    by (auto simp: field_eq_def split: option.splits)
  from assms Pair u em show ?thesis
    by (auto simp: login_def Let_def split: if_splits option.splits jv.splits)
qed

text \<open>
  The whole course of events: a user logs in, an admin then deactivates the account
  (\<open>update_user_status\<close>), and before the token expires it is presented again. The
  token still verifies, while a new login with the same credentials is refused.
\<close>

lemma token_survives_deactivation:
  assumes ids: "distinct (map doc_id users)"
    and ok: "login ev now0 users body mail pw = Inr (tok, resp)"
    and fresh: "now1 \<le> now0 + 60 * ACCESS_TOKEN_EXPIRE_MINUTES ev"
    and user: "find_one [(''email'', JStr (fst (login_credentials mail pw body)))] users = Some u"
  shows "get_current_user ev now1 (update_user_status (doc_id u) False users) tok =
           Inr \<lparr>ident_id = doc_id u, ident_email = JStr (fst (login_credentials mail pw body)),
                ident_role = (case get u ''role'' of
                                None \<Rightarrow> JStr ''job_seeker''
                              | Some r \<Rightarrow> if py_truthy r then r else JStr ''job_seeker'')\<rparr>
       \<and> login ev now1 (update_user_status (doc_id u) False users) body mail pw =
           Inl (HTTPException 401 ''Account is deactivated'')"
proof -
  let ?m = "fst (login_credentials mail pw body)"
  let ?p = "snd (login_credentials mail pw body)"
  let ?users = "update_user_status (doc_id u) False users"
  let ?u = "set_active False u"
  from login_success [OF ok] user obtain h n where
    h: "get u ''hashed_password'' = Some h" and v: "verify_password ev ?p h"
    and e: "get u ''email'' = Some (JStr ?m)" and n: "get u ''full_name'' = Some n"
    and tok: "tok = create_access_token ev now0 ?m
                (case get u ''role'' of None \<Rightarrow> JStr ''job_seeker'' | Some r \<Rightarrow> r)"
    and len: "\<not> utf8_len ?p > 72" and ne: "?m \<noteq> []" "?p \<noteq> []"
    by auto
  have mem: "u \<in> set users" using find_one_Some [OF user] by simp
  have f: "find_one [(''email'', JStr ?m)] ?users = Some ?u"
    using find_one_email_after_status [OF ids mem, of "JStr ?m" False] user by simp
  have e': "get ?u ''email'' = Some (JStr ?m)" using e by (simp add: get_set_active)
  have h': "get ?u ''hashed_password'' = Some h" using h by (simp add: get_set_active)
  have a': "get ?u ''is_active'' = Some (JBool False)" by (rule get_set_active_same)
  have "get_current_user ev now1 ?users tok =
          Inr \<lparr>ident_id = doc_id ?u, ident_email = JStr ?m,
               ident_role = (case get u ''role'' of
                               None \<Rightarrow> JStr ''job_seeker''
                             | Some r \<Rightarrow> if py_truthy r then r else JStr ''job_seeker'')\<rparr>"
    unfolding tok create_access_token_def
    by (subst verify_valid_token [OF f e'])
       (use fresh in \<open>auto simp: py_truthy_def split: option.splits\<close>)
  moreover have "login ev now1 ?users body mail pw = Inl (HTTPException 401 ''Account is deactivated'')"
    using f h' a' v len ne
    by (cases "login_credentials mail pw body") (simp add: login_def py_truthy_def)
  ultimately show ?thesis by (simp add: doc_id_set_active)
qed

section \<open>Properties of registration\<close>

lemma length_le_utf8_len: "length s \<le> utf8_len s"
  unfolding utf8_len_def by (induction s) simp_all

lemma short_password_invalid: "utf8_len pw < 8 \<Longrightarrow> \<not> validate_password pw"
  using length_le_utf8_len [of pw] by (simp add: validate_password_def)

lemma role_always_listed: "List.member [JOB_SEEKER, EMPLOYER, ADMIN] r"
  by (cases r) simp_all

text \<open>
  Every violation that the handler tests for ends in a 400: an email outside the pattern,
  a password outside 8 to 72 bytes or without an upper-case letter, a digit or one of the
  listed special characters, and a mobile number that \<open>validate_mobile\<close> refuses.
\<close>

lemma register_validation_errors:
  assumes "\<not> validate_email (uc_email user) \<or> utf8_len (uc_password user) < 8 \<or>
           72 < utf8_len (uc_password user) \<or> \<not> list_ex is_upper (uc_password user) \<or>
           \<not> list_ex is_digit (uc_password user) \<or> \<not> list_ex is_special (uc_password user) \<or>
           \<not> validate_mobile (uc_mobile user)"
  shows "\<exists>detail. register ev now new_id users user = Inl (HTTPException 400 detail)"
proof -
  have "\<not> validate_email (uc_email user) \<or> 72 < utf8_len (uc_password user) \<or>
        \<not> validate_password (uc_password user) \<or> \<not> validate_mobile (uc_mobile user)"
    using assms short_password_invalid [of "uc_password user"]
    by (auto simp: validate_password_def)
  then show ?thesis by (auto simp: register_def)
qed

text \<open>
  An email that is already stored is found by the insert itself: the handler makes no
  lookup before it, and the unique index on \<open>email\<close> turns the insert into a
  \<open>DuplicateKeyError\<close>, reported as 400 \<open>Email already exists\<close>.
\<close>

lemma new_user_email:
  "map_of (dict_update (user_model_dump user)
      [(''hashed_password'', h), (''is_verified'', v), (''is_active'', a), (''created_at'', t)])
     ''email'' = Some (JStr (uc_email user))"
  by (simp add: dict_update_def user_model_dump_def)

lemma register_existing_email:
  assumes "validate_email (uc_email user)" and "utf8_len (uc_password user) \<le> 72"
    and "validate_password (uc_password user)" and "validate_mobile (uc_mobile user)"
    and "list_ex (\<lambda>d. get d ''email'' = Some (JStr (uc_email user))) users"
  shows "register ev now new_id users user = Inl (HTTPException 400 ''Email already exists'')"
proof -
  let ?dict = "dict_update (user_model_dump user)
      [(''hashed_password'', JStr (get_password_hash ev (uc_password user))),
       (''is_verified'', JBool False), (''is_active'', JBool True), (''created_at'', JTime now)]"
  have "get \<lparr>doc_id = new_id, doc_fields = ?dict\<rparr> ''email'' = Some (JStr (uc_email user))"
    by (simp add: get_def new_user_email)
  moreover from assms(5) obtain d where "d \<in> set users"
    and "get d ''email'' = Some (JStr (uc_email user))"
    by (auto simp: list_ex_iff)
  ultimately have "list_ex (\<lambda>d. index_key d [''email'']
      = index_key \<lparr>doc_id = new_id, doc_fields = ?dict\<rparr> [''email'']) users"
    unfolding list_ex_iff by (intro bexI [of _ d]) (simp_all add: index_key_def)
  then have "duplicate_key users_indexes users \<lparr>doc_id = new_id, doc_fields = ?dict\<rparr>"
    by (simp add: duplicate_key_def users_indexes_def)
  then have "insert_one users_indexes users new_id ?dict = Inl DuplicateKeyError"
    by (simp add: insert_one_def)
  then show ?thesis
    using assms(1-4) role_always_listed [of "uc_role user"]
    by (simp add: register_def Let_def)
qed

subsection \<open>Claim about registration\<close>

text \<open>
  Claim C3 requires a 400 whenever the mobile number is not exactly ten digits. The
  pattern \<open>^\d{10}$\<close> is matched with \<open>re.match\<close>, and \<open>$\<close> also matches just before a
  final newline: a mobile number of ten digits and a newline, eleven characters, passes
  \<open>validate_mobile\<close>, and the registration succeeds and stores it.
\<close>

theorem register_accepts_newline_mobile:
  "length (uc_mobile bob) = 11 \<and> \<not> list_all is_digit (uc_mobile bob) \<and>
   validate_mobile (uc_mobile bob) \<and>
   register env0 3000 ''65a000000000000000000002'' [ann] bob =
     Inr ([ann,
           \<lparr>doc_id = ''65a000000000000000000002'',
            doc_fields =
              [(''email'', JStr ''bob@example.com''), (''full_name'', JStr ''Bob Ray''),
               (''role'', JStr ''employer''), (''password'', JStr ''Passw0rd!''),
               (''mobile'', JStr (''1234567890'' @ [CHR 0x0A])), (''resume_url'', JStr []),
               (''is_active'', JBool True), (''hashed_password'', JStr ''$2b$Passw0rd!''),
               (''is_verified'', JBool False), (''created_at'', JTime 3000)]\<rparr>],
          Signed ''s3cret''
            \<lparr>claim_sub = Some ''bob@example.com'', claim_role = Some (JStr ''employer''),
             claim_exp = Some 4800\<rparr>,
          [(''id'', JStr ''65a000000000000000000002''), (''email'', JStr ''bob@example.com''),
           (''name'', JStr ''Bob Ray''), (''role'', JStr ''employer'')])"
  by code_simp

subsection \<open>Claims about token verification\<close>

text \<open>
  Claim C8. The role in the identity that \<open>get_current_user\<close> returns is the token's
  role claim, or \<open>job_seeker\<close> when the token has none; it is never read from the stored
  user record: replacing the stored role of every user by anything leaves the outcome of
  verification unchanged, so a token that is still valid carries its old role.
\<close>

theorem verified_role_from_token:
  "(get_current_user ev now users (Signed k c) = Inr ident \<longrightarrow>
      ident_role ident = (case claim_role c of None \<Rightarrow> JStr ''job_seeker'' | Some r \<Rightarrow> r)) \<and>
   get_current_user ev now (map (set_stored_role r) users) tok = get_current_user ev now users tok"
proof -
  have "get_current_user ev now users (Signed k c) = Inr ident \<longrightarrow>
      ident_role ident = (case claim_role c of None \<Rightarrow> JStr ''job_seeker'' | Some r \<Rightarrow> r)"
    by (auto simp: get_current_user_def Let_def jwt_decode_Some split: option.splits if_splits)
  moreover have "get_current_user ev now (map (set_stored_role r) users) tok
      = get_current_user ev now users tok"
    by (simp add: get_current_user_def find_one_email_set_stored_role Let_def
        get_set_stored_role doc_id_set_stored_role split: option.splits)
  ultimately show ?thesis by blast
qed

theorem verified_role_from_token_witness:
  "get ann ''role'' = Some (JStr ''job_seeker'') \<and>
   get_current_user env0 2000 [ann] (Signed ''s3cret'' employer_claims) =
     Inr \<lparr>ident_id = ''65a000000000000000000001'', ident_email = JStr ''ann@example.com'',
          ident_role = JStr ''employer''\<rparr> \<and>
   ident_role \<lparr>ident_id = ''65a000000000000000000001'', ident_email = JStr ''ann@example.com'',
          ident_role = JStr ''employer''\<rparr>
     = (case claim_role employer_claims of None \<Rightarrow> JStr ''job_seeker'' | Some r \<Rightarrow> r)"
proof -
  have stored: "get ann ''role'' = Some (JStr ''job_seeker'')"
    by code_simp
  have run: "get_current_user env0 2000 [ann] (Signed ''s3cret'' employer_claims) =
     Inr \<lparr>ident_id = ''65a000000000000000000001'', ident_email = JStr ''ann@example.com'',
          ident_role = JStr ''employer''\<rparr>"
    by code_simp
  from verified_role_from_token [of env0 2000 "[ann]" "''s3cret''" employer_claims] run stored
  show ?thesis by blast
qed

text \<open>
  Claim C9. Token verification never looks at the active flag: a token signed with the
  server's key and not yet expired, whose subject is the email of a stored user, verifies
  and yields that user's identity although the user's \<open>is_active\<close> is false; a login
  for the same deactivated account fails.
\<close>

theorem inactive_account_token_verifies:
  assumes "find_one [(''email'', JStr m)] users = Some u"
    and "get u ''email'' = Some e"
    and "get u ''is_active'' = Some (JBool False)"
    and "claim_sub c = Some m" and "claim_exp c = Some t" and "now \<le> t"
  shows "get_current_user ev now users (Signed (SECRET_KEY ev) c) =
           Inr \<lparr>ident_id = doc_id u, ident_email = e,
                ident_role = (case claim_role c of None \<Rightarrow> JStr ''job_seeker'' | Some r \<Rightarrow> r)\<rparr> \<and>
         (fst (login_credentials mail pw body) = m \<longrightarrow> isl (login ev now' users body mail pw))"
proof -
  have "get_current_user ev now users (Signed (SECRET_KEY ev) c) =
           Inr \<lparr>ident_id = doc_id u, ident_email = e,
                ident_role = (case claim_role c of None \<Rightarrow> JStr ''job_seeker'' | Some r \<Rightarrow> r)\<rparr>"
    using assms(1,2,4,5,6) by (rule verify_valid_token)
  moreover have "fst (login_credentials mail pw body) = m \<longrightarrow> isl (login ev now' users body mail pw)"
    using assms(1,3) login_inactive [of mail pw body users u ev now'] by blast
  ultimately show ?thesis by blast
qed

theorem inactive_account_token_verifies_witness:
  "find_one [(''email'', JStr ''ann@example.com'')] [ann_deactivated] = Some ann_deactivated \<and>
   get ann_deactivated ''is_active'' = Some (JBool False) \<and>
   get_current_user env0 2000 [ann_deactivated] (Signed (SECRET_KEY env0) employer_claims) =
     Inr \<lparr>ident_id = doc_id ann_deactivated, ident_email = JStr ''ann@example.com'',
          ident_role = JStr ''employer''\<rparr> \<and>
   isl (login env0 2000 [ann_deactivated] None ''ann@example.com'' ''Passw0rd!'')"
proof -
  have found: "find_one [(''email'', JStr ''ann@example.com'')] [ann_deactivated] = Some ann_deactivated"
    by code_simp
  have mail: "get ann_deactivated ''email'' = Some (JStr ''ann@example.com'')"
    by code_simp
  have off: "get ann_deactivated ''is_active'' = Some (JBool False)"
    by code_simp
  have sub: "claim_sub employer_claims = Some ''ann@example.com''"
    by (simp add: employer_claims_def)
  have exp: "claim_exp employer_claims = Some 5000"
    by (simp add: employer_claims_def)
  have role: "claim_role employer_claims = Some (JStr ''employer'')"
    by (simp add: employer_claims_def)
  have creds: "fst (login_credentials ''ann@example.com'' ''Passw0rd!'' None) = ''ann@example.com''"
    by code_simp
  have fresh: "(2000::int) \<le> 5000"
    by simp
  from inactive_account_token_verifies [OF found mail off sub exp fresh,
      of env0 "''ann@example.com''" "''Passw0rd!''" None 2000]
    creds role found off
  show ?thesis by simp
qed

section \<open>Properties of job update\<close>









subsection \<open>Model validation\<close>



lemma model_validate_Nil: "model_validate c [] d = Some []"
  by (simp add: model_validate_def)






subsection \<open>The update handler\<close>



lemma update_job_forbidden_masked:
  assumes "model_validate (coerce Json) JobBase_fields body = Some job_update"
    and "get_current_user ev now users tok = Inr current_user"
    and "ObjectId job_id = Some oid"
    and "find_one [(''_id'', JStr oid)] jobs = Some job"
    and "get job ''created_by'' = Some owner"
    and "owner \<noteq> JStr (ident_id current_user)"
    and "ident_role current_user \<noteq> JStr ''admin''"
  shows "update_job_try coerce now jobs job_id job_update current_user =
           (Inl (HTTP (HTTPException 403 ''Not authorized to update this job'')), jobs)"
    and "put_job ev coerce now users jobs job_id body tok =
           (Inl (HTTPException 400 ''Invalid job ID''), jobs)"
  using assms by (simp_all add: put_job_def update_job_def update_job_try_def)

lemma put_job_error_codes:
  "fst (put_job ev coerce now users jobs job_id body tok) = Inl (HTTPException code detail)
   \<Longrightarrow> code = 400 \<or> code = 422 \<or> code = 500"
  by (auto simp: put_job_def update_job_def split: sum.splits prod.splits option.splits)

lemma put_job_incomplete_body:
  assumes "(n, k, opt) \<in> set JobBase_fields" and "map_of body n = None"
  shows "put_job ev coerce now users jobs job_id body tok =
           (Inl (HTTPException 422 ''Unprocessable Entity''), jobs)"
proof -
  have "model_validate c spec body = None" if "(n, k, opt) \<in> set spec" for c spec
    using that assms(2)
    by (induction spec) (auto simp: model_validate_def validate_field_def split: option.splits)
  from this [OF assms(1)] show ?thesis by (simp add: put_job_def)
qed





subsection \<open>Claims about job update\<close>

text \<open>
  Claim C2 requires 403 for an employer who updates a job of another owner. The handler
  raises that 403 inside its \<open>try\<close> block (lemma \<open>update_job_forbidden_masked\<close>), and the
  block's \<open>except Exception\<close> turns it into 400 \<open>Invalid job ID\<close>. Dora, an employer,
  sends a complete body, which \<open>JobUpdate\<close> accepts as it is, for the job that Carl
  created: she receives the 400, whatever conversions validation makes, and the job is
  left as it was.
\<close>

theorem update_job_forbidden_is_400:
  "model_validate (coerce Json) JobBase_fields new_title_body = Some new_title_body \<and>
   get job1 ''created_by'' = Some (JStr (doc_id carl)) \<and>
   get_current_user env0 2000 [ann, carl, dora] (Signed ''s3cret'' dora_claims) =
     Inr \<lparr>ident_id = doc_id dora, ident_email = JStr ''dora@example.com'',
          ident_role = JStr ''employer''\<rparr> \<and>
   update_job_try coerce 2000 [job1] ''65b000000000000000000001'' new_title_body
       \<lparr>ident_id = doc_id dora, ident_email = JStr ''dora@example.com'',
        ident_role = JStr ''employer''\<rparr>
     = (Inl (HTTP (HTTPException 403 ''Not authorized to update this job'')), [job1]) \<and>
   put_job env0 coerce 2000 [ann, carl, dora] [job1] ''65b000000000000000000001''
       new_title_body (Signed ''s3cret'' dora_claims)
     = (Inl (HTTPException 400 ''Invalid job ID''), [job1])"
  by code_simp




text \<open>
  The same four answers do not depend on the conversions that validation makes: every
  value of these bodies and of these stored jobs already has the type of its field.
\<close>

lemma owner_update_any_conversion:
  "put_job env0 coerce 2000 [ann, carl, dora] [job1] ''65b000000000000000000001''
       title_only_body (Signed ''s3cret'' carl_claims)
     = (Inl (HTTPException 422 ''Unprocessable Entity''), [job1]) \<and>
   isl (fst (put_job env0 coerce 2000 [ann, carl, dora] [job1] ''65b000000000000000000001''
          new_title_body (Signed ''s3cret'' carl_claims))) = False \<and>
   map (\<lambda>d. get d ''updated_at'')
     (snd (put_job env0 coerce 2000 [ann, carl, dora] [job1] ''65b000000000000000000001''
        new_title_body (Signed ''s3cret'' carl_claims)))
     = [Some (JTime 2000)] \<and>
   put_job env0 coerce 1000 [ann, carl, dora] [job1] ''65b000000000000000000001''
       job1_body (Signed ''s3cret'' carl_claims)
     = (Inl (HTTPException 400 ''Invalid job ID''), [job1]) \<and>
   fst (put_job env0 coerce 2000 [ann, carl, dora] [job_without_counts]
          ''65b000000000000000000001'' new_title_body (Signed ''s3cret'' carl_claims))
     = Inl (HTTPException 400 ''Invalid job ID'') \<and>
   map (\<lambda>d. get d ''title'')
     (snd (put_job env0 coerce 2000 [ann, carl, dora] [job_without_counts]
        ''65b000000000000000000001'' new_title_body (Signed ''s3cret'' carl_claims)))
     = [Some (JStr ''Senior Engineer'')]"
  by code_simp

section \<open>Properties of application creation\<close>









subsection \<open>Claim about applications\<close>




section \<open>Properties of job search and alert matching\<close>

lemma field_eq_array:
  "get d k = Some (JArr have) \<Longrightarrow> k \<noteq> ''_id'' \<Longrightarrow>
   field_eq d k (JStr w) = List.member have (JStr w)"
  by (simp add: field_eq_def)

lemma query_matches_lookup:
  assumes "query_matches rxs q d" and "map_of q k = Some (QCond opers)"
  shows "cond_matches rxs d k opers"
proof -
  from assms(2) have "(k, QCond opers) \<in> set q" by (rule map_of_SomeD)
  with assms(1) show ?thesis by (auto simp: query_matches_def list_all_iff)
qed

lemma alert_query_skills:
  assumes "map_of search_params ''skills'' = Some v" and "py_truthy v"
  shows "map_of (alert_query fmt now search_params last_triggered) ''skills'' = Some (QCond [QAll v])"
  using assms by (simp add: alert_query_def Let_def update_conv')

lemma alert_requires_all:
  assumes "get d ''skills'' = Some (JArr have)"
    and "map_of search_params ''skills'' = Some (JArr (map JStr wanted))" and "wanted \<noteq> []"
    and "query_matches rxs (alert_query fmt now search_params last_triggered) d"
  shows "list_all (\<lambda>w. List.member have (JStr w)) wanted"
proof -
  have "py_truthy (JArr (map JStr wanted))" using assms(3) by (simp add: py_truthy_def)
  from alert_query_skills [OF assms(2) this]
  have "cond_matches rxs d ''skills'' [QAll (JArr (map JStr wanted))]"
    using assms(4) by (rule query_matches_lookup [rotated])
  then have "list_all (field_eq d ''skills'') (map JStr wanted)"
    by (simp add: cond_matches_def op_matches_def)
  then show ?thesis
    using assms(1) by (simp add: list_all_iff field_eq_array)
qed

lemma alert_skills_only:
  assumes "get d ''skills'' = Some (JArr have)" and "wanted \<noteq> []"
  shows "query_matches rxs (alert_query fmt now [(''skills'', JArr (map JStr wanted))] last_triggered) d
       = (field_eq d ''is_active'' (JBool True) \<and>
          list_all (\<lambda>w. List.member have (JStr w)) wanted \<and>
          op_matches rxs d ''posted_at'' (QGte (alert_cutoff now last_triggered)))"
  using assms
  by (simp add: alert_query_def Let_def py_truthy_def query_matches_def cond_matches_def
      op_matches_def list_all_iff field_eq_array)

lemma search_skills_only:
  assumes "get d ''skills'' = Some (JArr have)" and "skills_param \<noteq> []"
  shows "query_matches rxs (search_jobs_query [] [] [] [] 0 0 100 skills_param) d
       = (field_eq d ''is_active'' (JBool True) \<and>
          list_ex (\<lambda>w. List.member have (JStr (strip w))) (split_on CHR '','' skills_param))"
  using assms
  by (simp add: search_jobs_query_def Let_def query_matches_def cond_matches_def
      op_matches_def list_ex_iff field_eq_array)

subsection \<open>Claim about skills in alerts and in search\<close>

text \<open>
  Claim C6. For a job whose \<open>skills\<close> field is an array: a job that matches the query of
  an alert with a list of skills holds every listed skill, whatever else the alert asks
  for; an alert that asks for skills only matches exactly the active jobs that hold all of
  them and were posted since the cutoff; and the job search with a comma-separated skills
  list, and no other filter, matches exactly the active jobs that hold at least one of the
  listed skills.
\<close>

theorem skills_all_versus_any:
  assumes "get d ''skills'' = Some (JArr have)" and "wanted \<noteq> []"
  shows "(map_of search_params ''skills'' = Some (JArr (map JStr wanted)) \<and>
          query_matches rxs (alert_query fmt now search_params last_triggered) d
          \<longrightarrow> list_all (\<lambda>w. List.member have (JStr w)) wanted) \<and>
         query_matches rxs
             (alert_query fmt now [(''skills'', JArr (map JStr wanted))] last_triggered) d
           = (field_eq d ''is_active'' (JBool True) \<and>
              list_all (\<lambda>w. List.member have (JStr w)) wanted \<and>
              op_matches rxs d ''posted_at'' (QGte (alert_cutoff now last_triggered))) \<and>
         (skills_param \<noteq> [] \<longrightarrow>
            query_matches rxs (search_jobs_query [] [] [] [] 0 0 100 skills_param) d
              = (field_eq d ''is_active'' (JBool True) \<and>
                 list_ex (\<lambda>w. List.member have (JStr (strip w)))
                   (split_on CHR '','' skills_param)))"
proof (intro conjI impI)
  assume "map_of search_params ''skills'' = Some (JArr (map JStr wanted)) \<and>
          query_matches rxs (alert_query fmt now search_params last_triggered) d"
  then have p: "map_of search_params ''skills'' = Some (JArr (map JStr wanted))"
    and m: "query_matches rxs (alert_query fmt now search_params last_triggered) d"
    by simp_all
  from assms(1) p assms(2) m show "list_all (\<lambda>w. List.member have (JStr w)) wanted"
    by (rule alert_requires_all)
next
  from assms show "query_matches rxs
             (alert_query fmt now [(''skills'', JArr (map JStr wanted))] last_triggered) d
           = (field_eq d ''is_active'' (JBool True) \<and>
              list_all (\<lambda>w. List.member have (JStr w)) wanted \<and>
              op_matches rxs d ''posted_at'' (QGte (alert_cutoff now last_triggered)))"
    by (rule alert_skills_only)
next
  assume "skills_param \<noteq> []"
  with assms(1) show "query_matches rxs (search_jobs_query [] [] [] [] 0 0 100 skills_param) d
              = (field_eq d ''is_active'' (JBool True) \<and>
                 list_ex (\<lambda>w. List.member have (JStr (strip w)))
                   (split_on CHR '','' skills_param))"
    by (rule search_skills_only)
qed

theorem skills_all_versus_any_witness:
  "get job_go_sql ''skills'' = Some (JArr [JStr ''Go'', JStr ''SQL'']) \<and>
   query_matches no_regex
     (alert_query no_fmt 1000000 [(''skills'', JArr (map JStr [''Go'', ''SQL'']))] None) job_go_sql \<and>
   list_all (\<lambda>w. List.member [JStr ''Go'', JStr ''SQL''] (JStr w)) [''Go'', ''SQL''] \<and>
   split_on CHR '','' ''Go,SQL'' = [''Go'', ''SQL''] \<and>
   query_matches no_regex (search_jobs_query [] [] [] [] 0 0 100 ''Go,SQL'') job_go_sql \<and>
   query_matches no_regex (search_jobs_query [] [] [] [] 0 0 100 ''Go,SQL'') job_go \<and>
   \<not> query_matches no_regex
     (alert_query no_fmt 1000000 [(''skills'', JArr (map JStr [''Go'', ''SQL'']))] None) job_go"
proof -
  let ?params = "[(''skills'', JArr (map JStr [''Go'', ''SQL'']))]"
  have arr: "get job_go_sql ''skills'' = Some (JArr [JStr ''Go'', JStr ''SQL''])"
    by code_simp
  have wanted: "[''Go'', ''SQL''] \<noteq> []"
    by simp
  have param: "map_of ?params ''skills'' = Some (JArr (map JStr [''Go'', ''SQL'']))"
    by simp
  have alert: "query_matches no_regex (alert_query no_fmt 1000000 ?params None) job_go_sql"
    by code_simp
  have split: "split_on CHR '','' ''Go,SQL'' = [''Go'', ''SQL'']"
    by code_simp
  have search: "query_matches no_regex (search_jobs_query [] [] [] [] 0 0 100 ''Go,SQL'') job_go_sql"
    by code_simp
  have any: "query_matches no_regex (search_jobs_query [] [] [] [] 0 0 100 ''Go,SQL'') job_go"
    by code_simp
  have not_all: "\<not> query_matches no_regex (alert_query no_fmt 1000000 ?params None) job_go"
    by code_simp
  from skills_all_versus_any [OF arr wanted, of ?params no_regex no_fmt 1000000 None] param alert
  have "list_all (\<lambda>w. List.member [JStr ''Go'', JStr ''SQL''] (JStr w)) [''Go'', ''SQL'']"
    by blast
  with arr alert split search any not_all show ?thesis by blast
qed


end
